theory Spec2Isabelle
  imports Main
begin

section \<open>Tables\<close>

text \<open>
  The script \<^verbatim>\<open>TA_Automation.py\<close> is a straight-line pandas program. A table
  (\<^verbatim>\<open>pd.DataFrame\<close>) is modelled as its column labels and its rows, every row
  holding one cell per label. A cell is a JSON scalar of the query result, a parsed
  timestamp, or the null that pandas writes as \<^verbatim>\<open>NaN\<close>, \<^verbatim>\<open>None\<close> or \<^verbatim>\<open>NaT\<close>.
  Numbers are integers; numbers with a fraction, booleans and nested JSON values are not
  modelled.
\<close>

record timestamp =
  year :: int
  month :: int
  day :: int
  hour :: int
  minute :: int
  second :: int

datatype cell = Null | Str string | Num int | Ts timestamp

type_synonym row = "cell list"

record dataframe =
  columns :: "string list"
  rows :: "row list"

text \<open>The exceptions the script can end with. \<open>External\<close> is a failure reported by a
  service the script calls (HTTP, Google Sheets, credential parsing).\<close>

datatype exn =
    AttributeError string
  | ValueError string
  | MissingColumns "string list"
  | KeyError "string list"
  | MergeError string
  | ParserError cell
  | External string

text \<open>\<open>cell_at cols r c\<close> is the cell of row \<open>r\<close> under label \<open>c\<close>. It is only
  read after the label has been checked to be a column.\<close>

fun cell_at :: "string list \<Rightarrow> row \<Rightarrow> string \<Rightarrow> cell" where
  "cell_at (n # ns) (x # xs) c = (if n = c then x else cell_at ns xs c)"
| "cell_at _ _ c = Null"

subsection \<open>Column types\<close>

text \<open>
  pandas gives every column one type. A column of integers is \<^verbatim>\<open>int64\<close> and holds
  them exactly. A column of numbers that has a null is \<^verbatim>\<open>float64\<close>, whose null is
  \<^verbatim>\<open>NaN\<close>: its integers are converted to the nearest float, which changes the ones
  that need more than 53 bits (ties go to the even neighbour). Columns with strings or
  timestamps hold their cells unchanged. \<open>Series\<close> is this conversion on the cells of one
  column, \<open>DataFrame\<close> on every column of a table, as \<^verbatim>\<open>pd.DataFrame(records)\<close>
  applies it to the records of a JSON body.
\<close>

fun bit_length :: "int \<Rightarrow> nat" where
  "bit_length n = (if n \<le> 0 then 0 else Suc (bit_length (n div 2)))"

declare bit_length.simps [simp del]

definition float64_of_int :: "int \<Rightarrow> int" where
  "float64_of_int n =
     (if bit_length \<bar>n\<bar> \<le> 53 then n
      else let e = bit_length \<bar>n\<bar> - 53; q = \<bar>n\<bar> div 2 ^ e; r = \<bar>n\<bar> mod 2 ^ e in
           sgn n * ((if 2 ^ (e - 1) < r \<or> (r = 2 ^ (e - 1) \<and> odd q) then q + 1 else q) * 2 ^ e))"

fun is_num :: "cell \<Rightarrow> bool" where
  "is_num (Num n) = True"
| "is_num c = False"

definition is_float64 :: "cell list \<Rightarrow> bool" where
  "is_float64 cs \<longleftrightarrow>
     list_ex (\<lambda>c. c = Null) cs \<and> list_ex is_num cs \<and> list_all (\<lambda>c. c = Null \<or> is_num c) cs"

fun as_float64 :: "cell \<Rightarrow> cell" where
  "as_float64 (Num n) = Num (float64_of_int n)"
| "as_float64 c = c"

definition Series :: "cell list \<Rightarrow> cell list" where
  "Series cs = (if is_float64 cs then map as_float64 cs else cs)"

definition DataFrame :: "dataframe \<Rightarrow> dataframe" where
  "DataFrame t =
     t\<lparr>rows := map (\<lambda>r. map (\<lambda>c. if is_float64 (map (\<lambda>r'. cell_at (columns t) r' c) (rows t))
                                   then as_float64 (cell_at (columns t) r c)
                                   else cell_at (columns t) r c) (columns t)) (rows t)\<rparr>"

subsection \<open>Reading and writing columns\<close>

text \<open>\<^verbatim>\<open>df[c]\<close>: the column as a list of cells, or \<^verbatim>\<open>KeyError\<close>.\<close>

definition getitem :: "dataframe \<Rightarrow> string \<Rightarrow> exn + cell list" where
  "getitem df c =
     (if c \<in> set (columns df) then Inr (map (\<lambda>r. cell_at (columns df) r c) (rows df))
      else Inl (KeyError [c]))"

text \<open>\<^verbatim>\<open>df[c] = vs\<close>: overwrite the column in place when the label exists, append
  it as the last column otherwise. The values are those of a column, \<open>Series vs\<close>.\<close>

definition setitem :: "dataframe \<Rightarrow> string \<Rightarrow> cell list \<Rightarrow> dataframe" where
  "setitem df c vs =
     (if c \<in> set (columns df)
      then df\<lparr>rows := map2 (\<lambda>r v. map (\<lambda>n. if n = c then v else cell_at (columns df) r n) (columns df))
                          (rows df) (Series vs)\<rparr>
      else df\<lparr>columns := columns df @ [c],
              rows := map2 (\<lambda>r v. map (cell_at (columns df) r) (columns df) @ [v]) (rows df) (Series vs)\<rparr>)"

text \<open>\<^verbatim>\<open>df[[c1, ..., cn]]\<close>: projection; \<^verbatim>\<open>KeyError\<close> names the absent labels.\<close>

definition select_columns :: "dataframe \<Rightarrow> string list \<Rightarrow> exn + dataframe" where
  "select_columns df cs =
     (let absent = filter (\<lambda>c. c \<notin> set (columns df)) cs in
      if absent = []
      then Inr \<lparr>columns = cs, rows = map (\<lambda>r. map (cell_at (columns df) r) cs) (rows df)\<rparr>
      else Inl (KeyError absent))"

text \<open>\<^verbatim>\<open>df.rename(columns={...})\<close>: labels not in the mapping are kept.\<close>

definition rename :: "dataframe \<Rightarrow> (string \<times> string) list \<Rightarrow> dataframe" where
  "rename df m = df\<lparr>columns := map (\<lambda>c. case map_of m c of Some n \<Rightarrow> n | None \<Rightarrow> c) (columns df)\<rparr>"

subsection \<open>\<^verbatim>\<open>pd.merge\<close>\<close>

text \<open>
  \<^verbatim>\<open>pd.merge(left, right, on=keys, how=...)\<close> as the script uses it:
  \<^item> a key that is not a column of both tables is a \<^verbatim>\<open>KeyError\<close>, which names the
    first such key; a label that is not unique is refused (in the script only the renaming
    of lines 125 and 157 can make a label twice, and it makes a key);
  \<^item> when both tables have rows, a key whose column holds strings in one table and numbers
    or timestamps in the other (or numbers in one and timestamps in the other) is refused
    with a \<^verbatim>\<open>ValueError\<close>. What pandas does with a key column that mixes strings and
    numbers, or that holds nulls only, is not modelled: such a column is merged;
  \<^item> the result has the left columns followed by the right columns that are not keys;
    a label that is not a key and stands in both tables gets the suffix \<^verbatim>\<open>_x\<close>
    on the left and \<^verbatim>\<open>_y\<close> on the right (the default \<^verbatim>\<open>suffixes\<close>); suffixes
    that produce a duplicate label are a \<^verbatim>\<open>MergeError\<close>;
  \<^item> two rows match when their key cells are equal, and a null key matches a null key
    (pandas differs from SQL here);
  \<^item> \<^verbatim>\<open>inner\<close> keeps the matching pairs in the order of the left rows;
  \<^item> \<^verbatim>\<open>outer\<close> adds the left rows and the right rows without a match, padded with
    nulls, and sorts the rows by key: key by key in the order of \<^verbatim>\<open>on\<close>, numbers and
    strings in increasing order, nulls last, rows with equal keys in the order in which they
    were built (the order \<open>rank\<close> between values of different kinds is the model's own).
    The padding turns integer columns into \<^verbatim>\<open>float64\<close> columns (\<open>DataFrame\<close>).
\<close>

datatype how = Inner | Outer

definition key_of :: "string list \<Rightarrow> string list \<Rightarrow> row \<Rightarrow> cell list" where
  "key_of cols on r = map (cell_at cols r) on"

definition lsuffix :: "string list \<Rightarrow> string list \<Rightarrow> string \<Rightarrow> string" where
  "lsuffix on rc c = (if c \<notin> set on \<and> c \<in> set rc then c @ ''_x'' else c)"

definition rsuffix :: "string list \<Rightarrow> string \<Rightarrow> string" where
  "rsuffix lc c = (if c \<in> set lc then c @ ''_y'' else c)"

definition non_keys :: "string list \<Rightarrow> string list \<Rightarrow> string list" where
  "non_keys on cs = filter (\<lambda>c. c \<notin> set on) cs"

definition merged_columns :: "string list \<Rightarrow> string list \<Rightarrow> string list \<Rightarrow> string list" where
  "merged_columns lc rc on = map (lsuffix on rc) lc @ map (rsuffix lc) (non_keys on rc)"

definition has_match :: "string list \<Rightarrow> string list \<Rightarrow> cell list \<Rightarrow> row list \<Rightarrow> bool" where
  "has_match cols on k rs = list_ex (\<lambda>r. key_of cols on r = k) rs"

definition both_row :: "string list \<Rightarrow> string list \<Rightarrow> string list \<Rightarrow> row \<Rightarrow> row \<Rightarrow> row" where
  "both_row lc rc on l r = map (cell_at lc l) lc @ map (cell_at rc r) (non_keys on rc)"

definition left_only_row :: "string list \<Rightarrow> string list \<Rightarrow> string list \<Rightarrow> row \<Rightarrow> row" where
  "left_only_row lc rc on l = map (cell_at lc l) lc @ map (\<lambda>c. Null) (non_keys on rc)"

definition right_only_row :: "string list \<Rightarrow> string list \<Rightarrow> string list \<Rightarrow> row \<Rightarrow> row" where
  "right_only_row lc rc on r =
     map (\<lambda>c. if c \<in> set on then cell_at rc r c else Null) lc @ map (cell_at rc r) (non_keys on rc)"

definition inner_rows :: "string list \<Rightarrow> string list \<Rightarrow> string list \<Rightarrow> row list \<Rightarrow> row list \<Rightarrow> row list" where
  "inner_rows lc rc on ls rs =
     concat (map (\<lambda>l. map (both_row lc rc on l)
                        (filter (\<lambda>r. key_of rc on r = key_of lc on l) rs)) ls)"

definition left_only_rows :: "string list \<Rightarrow> string list \<Rightarrow> string list \<Rightarrow> row list \<Rightarrow> row list \<Rightarrow> row list" where
  "left_only_rows lc rc on ls rs =
     map (left_only_row lc rc on) (filter (\<lambda>l. \<not> has_match rc on (key_of lc on l) rs) ls)"

definition right_only_rows :: "string list \<Rightarrow> string list \<Rightarrow> string list \<Rightarrow> row list \<Rightarrow> row list \<Rightarrow> row list" where
  "right_only_rows lc rc on ls rs =
     map (right_only_row lc rc on) (filter (\<lambda>r. \<not> has_match lc on (key_of rc on r) ls) rs)"

text \<open>The kind of values of a key column: that of its cells that are not null, when they
  are all of one kind.\<close>

datatype kind = Number | Text | Datetime

fun kind_of :: "cell \<Rightarrow> kind option" where
  "kind_of Null = None"
| "kind_of (Num n) = Some Number"
| "kind_of (Str s) = Some Text"
| "kind_of (Ts t) = Some Datetime"

definition column_kind :: "cell list \<Rightarrow> kind option" where
  "column_kind cs =
     (case remdups (filter (\<lambda>k. k \<noteq> None) (map kind_of cs)) of [k] \<Rightarrow> k | _ \<Rightarrow> None)"

definition key_mismatch :: "dataframe \<Rightarrow> dataframe \<Rightarrow> string \<Rightarrow> bool" where
  "key_mismatch left right k \<longleftrightarrow>
     rows left \<noteq> [] \<and> rows right \<noteq> [] \<and>
     (case (column_kind (map (\<lambda>r. cell_at (columns left) r k) (rows left)),
            column_kind (map (\<lambda>r. cell_at (columns right) r k) (rows right))) of
        (Some a, Some b) \<Rightarrow> a \<noteq> b
      | _ \<Rightarrow> False)"

text \<open>The order of the keys of an outer merge. Strings compare by code point.\<close>

fun str_le :: "string \<Rightarrow> string \<Rightarrow> bool" where
  "str_le [] t = True"
| "str_le (c # s) [] = False"
| "str_le (c # s) (d # t) = ((of_char c :: nat) < of_char d \<or> (c = d \<and> str_le s t))"

fun ints_le :: "int list \<Rightarrow> int list \<Rightarrow> bool" where
  "ints_le (a # as) (b # bs) = (a < b \<or> (a = b \<and> ints_le as bs))"
| "ints_le as bs = True"

definition fields :: "timestamp \<Rightarrow> int list" where
  "fields t = [year t, month t, day t, hour t, minute t, second t]"

fun rank :: "cell \<Rightarrow> nat" where
  "rank (Num n) = 0"
| "rank (Ts t) = 1"
| "rank (Str s) = 2"
| "rank Null = 3"

fun cell_le :: "cell \<Rightarrow> cell \<Rightarrow> bool" where
  "cell_le (Num a) (Num b) = (a \<le> b)"
| "cell_le (Str s) (Str t) = str_le s t"
| "cell_le (Ts a) (Ts b) = ints_le (fields a) (fields b)"
| "cell_le x y = (rank x \<le> rank y)"

fun key_le :: "cell list \<Rightarrow> cell list \<Rightarrow> bool" where
  "key_le (x # xs) (y # ys) = (if x = y then key_le xs ys else cell_le x y)"
| "key_le xs ys = True"

fun insort_row :: "(row \<Rightarrow> cell list) \<Rightarrow> row \<Rightarrow> row list \<Rightarrow> row list" where
  "insort_row key r [] = [r]"
| "insort_row key r (s # rs) =
     (if key_le (key r) (key s) then r # s # rs else s # insort_row key r rs)"

definition sort_rows :: "(row \<Rightarrow> cell list) \<Rightarrow> row list \<Rightarrow> row list" where
  "sort_rows key rs = foldr (insort_row key) rs []"

definition merge :: "dataframe \<Rightarrow> dataframe \<Rightarrow> string list \<Rightarrow> how \<Rightarrow> exn + dataframe" where
  "merge left right on how =
     (let lc = columns left; rc = columns right;
          absent = filter (\<lambda>k. k \<notin> set lc \<or> k \<notin> set rc) on in
      if absent \<noteq> [] then Inl (KeyError [hd absent])
      else if \<not> distinct lc \<or> \<not> distinct rc then Inl (ValueError ''label is not unique'')
      else if list_ex (key_mismatch left right) on
      then Inl (ValueError ''You are trying to merge on columns of different types'')
      else if \<not> distinct (merged_columns lc rc on) then Inl (MergeError ''duplicate columns'')
      else Inr (case how of
                  Inner \<Rightarrow>
                    \<lparr>columns = merged_columns lc rc on,
                     rows = inner_rows lc rc on (rows left) (rows right)\<rparr>
                | Outer \<Rightarrow>
                    DataFrame
                      \<lparr>columns = merged_columns lc rc on,
                       rows = sort_rows (key_of (merged_columns lc rc on) on)
                                (inner_rows lc rc on (rows left) (rows right) @
                                 left_only_rows lc rc on (rows left) (rows right) @
                                 right_only_rows lc rc on (rows left) (rows right))\<rparr>))"

section \<open>The join pipeline (lines 112 to 160)\<close>

text \<open>Sequencing of statements that can raise: the first exception ends the run.\<close>

definition and_then :: "exn + 'a \<Rightarrow> ('a \<Rightarrow> exn + 'b) \<Rightarrow> exn + 'b" where
  "and_then x f = (case x of Inl e \<Rightarrow> Inl e | Inr v \<Rightarrow> f v)"

subsection \<open>Sessions and batch tables (lines 113 to 134)\<close>

definition df1_columns :: "string list" where
  "df1_columns =
     [''subjective_feedback'', ''lu_batch_name'', ''au_batch_name'', ''au_start_date'',
      ''feedback_given'', ''session_id'', ''rating'', ''description'', ''module_name'',
      ''topic'', ''cancel_reason'', ''action_time'', ''booked_time'', ''session_start_time'']"

definition make_df1 :: "dataframe \<Rightarrow> exn + dataframe" where
  "make_df1 sessions =
     and_then (select_columns sessions df1_columns)
       (\<lambda>d. Inr (rename d [(''lu_batch_name'', ''Batch''), (''module_name'', ''Module'')]))"

definition make_df2 :: "dataframe \<Rightarrow> dataframe" where
  "make_df2 batch = rename batch [(''batch'', ''Batch'')]"

text \<open>The source holds the required labels in a Python set, which has no order; the
  model lists them as the source writes them.\<close>

definition required_df2_cols :: "string list" where
  "required_df2_cols =
     [''session_id'', ''Batch'', ''mentor_name'', ''time_category'', ''session_start_time'']"

definition missing :: "dataframe \<Rightarrow> string list" where
  "missing df2 = filter (\<lambda>c. c \<notin> set (columns df2)) required_df2_cols"

definition validate_df2 :: "dataframe \<Rightarrow> exn + dataframe" where
  "validate_df2 df2 = (if missing df2 \<noteq> [] then Inl (MissingColumns (missing df2)) else Inr df2)"

definition session_batch_keys :: "string list" where
  "session_batch_keys = [''session_id'', ''Batch'']"

subsection \<open>Timestamps (lines 137 to 143 and 150)\<close>

text \<open>
  \<^verbatim>\<open>pd.to_datetime\<close> reads one cell in one of three ways: a timestamp, a missing value
  (\<^verbatim>\<open>NaT\<close>, which is not an error), or a value it cannot parse. Which strings and
  numbers parse, and to what, is pandas' own parser. It reads a column as a whole and may
  settle on one format for all its cells, so the reading of a cell depends on the column it
  stands in: the parser is the parameter \<open>parse\<close>, and \<open>parse col c\<close> is its reading of the
  cell \<open>c\<close> of the column \<open>col\<close>. A null cell is always missing and a timestamp is read as
  itself.
\<close>

datatype parsed = Parsed timestamp | Missing | Unparseable

type_synonym parser = "cell list \<Rightarrow> cell \<Rightarrow> parsed"

fun to_datetime_cell :: "parser \<Rightarrow> cell list \<Rightarrow> cell \<Rightarrow> parsed" where
  "to_datetime_cell parse col Null = Missing"
| "to_datetime_cell parse col (Ts t) = Parsed t"
| "to_datetime_cell parse col c = parse col c"

definition as_cell :: "parsed \<Rightarrow> cell" where
  "as_cell p = (case p of Parsed t \<Rightarrow> Ts t | Missing \<Rightarrow> Null | Unparseable \<Rightarrow> Null)"

text \<open>\<^verbatim>\<open>pd.to_datetime(col, errors='coerce')\<close>: what does not parse becomes null.\<close>

definition to_datetime_coerce :: "parser \<Rightarrow> cell list \<Rightarrow> cell list" where
  "to_datetime_coerce parse cs = map (\<lambda>c. as_cell (to_datetime_cell parse cs c)) cs"

text \<open>\<^verbatim>\<open>pd.to_datetime(col)\<close>, with the default \<^verbatim>\<open>errors='raise'\<close>: the first cell
  that does not parse raises.\<close>

definition to_datetime_raise :: "parser \<Rightarrow> cell list \<Rightarrow> exn + cell list" where
  "to_datetime_raise parse cs =
     (case find (\<lambda>c. to_datetime_cell parse cs c = Unparseable) cs of
        Some c \<Rightarrow> Inl (ParserError c)
      | None \<Rightarrow> Inr (map (\<lambda>c. as_cell (to_datetime_cell parse cs c)) cs))"

text \<open>The \<^verbatim>\<open>.dt\<close> accessor exists on a datetime column only. The script uses it on
  columns that \<^verbatim>\<open>pd.to_datetime\<close> has written, whose cells are timestamps or null.\<close>

fun is_datetime :: "cell \<Rightarrow> bool" where
  "is_datetime Null = True"
| "is_datetime (Ts t) = True"
| "is_datetime c = False"

definition dt :: "cell list \<Rightarrow> exn + cell list" where
  "dt cs = (if list_all is_datetime cs then Inr cs
            else Inl (AttributeError ''Can only use .dt accessor with datetimelike values''))"

text \<open>
  \<^verbatim>\<open>.dt.to_period('M').astype(int)\<close>: the number of the calendar month, counted from
  January 1970. The result is a 64-bit integer column, which has no null: \<^verbatim>\<open>NaT\<close>
  is read as its integer representation, the least 64-bit integer.
\<close>

definition iNaT :: int where
  "iNaT = - (2 ^ 63)"

fun month_ordinal :: "cell \<Rightarrow> int" where
  "month_ordinal (Ts t) = (year t - 1970) * 12 + (month t - 1)"
| "month_ordinal c = iNaT"

text \<open>Subtraction of 64-bit integer columns wraps around.\<close>

definition int64 :: "int \<Rightarrow> int" where
  "int64 x = (x + 2 ^ 63) mod 2 ^ 64 - 2 ^ 63"

definition month_diff :: "cell \<Rightarrow> cell \<Rightarrow> cell" where
  "month_diff s a = Num (int64 (month_ordinal s - month_ordinal a))"

text \<open>\<^verbatim>\<open>.dt.strftime('%Y-%m-%d-%H')\<close>: zero-padded fields; \<^verbatim>\<open>NaT\<close> gives null.\<close>

definition digit :: "int \<Rightarrow> char" where
  "digit d = ''0123456789'' ! nat (d mod 10)"

definition pad2 :: "int \<Rightarrow> string" where
  "pad2 n = [digit (n div 10), digit n]"

definition pad4 :: "int \<Rightarrow> string" where
  "pad4 n = [digit (n div 1000), digit (n div 100), digit (n div 10), digit n]"

fun strftime_ymdh :: "cell \<Rightarrow> cell" where
  "strftime_ymdh (Ts t) =
     Str (pad4 (year t) @ ''-'' @ pad2 (month t) @ ''-'' @ pad2 (day t) @ ''-'' @ pad2 (hour t))"
| "strftime_ymdh c = Null"

text \<open>Lines 137 and 138.\<close>

definition parse_timestamps :: "parser \<Rightarrow> dataframe \<Rightarrow> exn + dataframe" where
  "parse_timestamps parse df =
     and_then (getitem df ''session_start_time'') (\<lambda>sst.
     let df = setitem df ''session_start_time'' (to_datetime_coerce parse sst) in
     and_then (getitem df ''au_start_date'') (\<lambda>asd.
     Inr (setitem df ''au_start_date'' (to_datetime_coerce parse asd))))"

text \<open>Lines 140 to 143.\<close>

definition add_month_diff_period :: "dataframe \<Rightarrow> exn + dataframe" where
  "add_month_diff_period df =
     and_then (getitem df ''session_start_time'') (\<lambda>sst.
     and_then (dt sst) (\<lambda>sst.
     and_then (getitem df ''au_start_date'') (\<lambda>asd.
     and_then (dt asd) (\<lambda>asd.
     Inr (setitem df ''month_diff_period'' (map2 month_diff sst asd))))))"

text \<open>Line 150.\<close>

definition add_year_month_date_hour :: "dataframe \<Rightarrow> exn + dataframe" where
  "add_year_month_date_hour df =
     and_then (getitem df ''session_start_time'') (\<lambda>sst.
     and_then (dt sst) (\<lambda>sst.
     Inr (setitem df ''year_month_date_hour'' (map strftime_ymdh sst))))"

subsection \<open>Rating deduplication (lines 146 to 148)\<close>

text \<open>The function given to \<^verbatim>\<open>transform\<close>:
  \<^verbatim>\<open>lambda x: x.mask(np.arange(len(x)) != 0, np.nan)\<close>.\<close>

definition mask_not_first :: "cell list \<Rightarrow> cell list" where
  "mask_not_first x = map (\<lambda>(i, v). if i \<noteq> 0 then Null else v) (zip [0..<length x] x)"

text \<open>
  \<^verbatim>\<open>groupby(key)[col].transform(f)\<close>: the rows are split into one group per key
  value, each group keeping the order of the rows; \<open>f\<close> maps the values of a group to as
  many values, which go back to the rows of the group. \<^verbatim>\<open>groupby\<close> drops null keys
  (\<^verbatim>\<open>dropna=True\<close> is the default): a row with a null key is in no group and receives null.
\<close>

definition group_values :: "cell list \<Rightarrow> cell list \<Rightarrow> cell \<Rightarrow> cell list" where
  "group_values keys vals k = map snd (filter (\<lambda>(k', v). k' = k) (zip keys vals))"

definition position_in_group :: "cell list \<Rightarrow> nat \<Rightarrow> nat" where
  "position_in_group keys i = length (filter (\<lambda>k. k = keys ! i) (take i keys))"

definition groupby_transform :: "cell list \<Rightarrow> cell list \<Rightarrow> (cell list \<Rightarrow> cell list) \<Rightarrow> exn + cell list" where
  "groupby_transform keys vals f =
     (if list_ex (\<lambda>k. k \<noteq> Null \<and> length (f (group_values keys vals k)) \<noteq> length (group_values keys vals k)) keys
      then Inl (ValueError ''transform must return a result of the length of the group'')
      else Inr (map (\<lambda>i. if keys ! i = Null then Null
                          else f (group_values keys vals (keys ! i)) ! position_in_group keys i)
                    [0..<length keys]))"

definition dedup_rating :: "dataframe \<Rightarrow> exn + dataframe" where
  "dedup_rating df =
     and_then (getitem df ''session_id'') (\<lambda>keys.
     and_then (getitem df ''rating'') (\<lambda>vals.
     and_then (groupby_transform keys vals mask_not_first) (\<lambda>vs.
     Inr (setitem df ''rating'' vs))))"

subsection \<open>Exact duplicates (line 151)\<close>

text \<open>\<^verbatim>\<open>df.drop_duplicates()\<close> keeps the first of the rows that are equal in every
  column; nulls compare equal.\<close>

fun keep_first :: "row list \<Rightarrow> row list \<Rightarrow> row list" where
  "keep_first seen [] = []"
| "keep_first seen (r # rs) =
     (if r \<in> set seen then keep_first seen rs else r # keep_first (r # seen) rs)"

definition drop_duplicates :: "dataframe \<Rightarrow> dataframe" where
  "drop_duplicates df = df\<lparr>rows := keep_first [] (rows df)\<rparr>"

subsection \<open>Slots table (lines 154 to 157)\<close>

definition make_df3 :: "parser \<Rightarrow> dataframe \<Rightarrow> exn + dataframe" where
  "make_df3 parse slots =
     and_then (getitem slots ''date'') (\<lambda>date.
     and_then (to_datetime_raise parse date) (\<lambda>date.
     let df3 = setitem slots ''date'' date in
     and_then (getitem df3 ''date'') (\<lambda>date.
     and_then (dt date) (\<lambda>date.
     let df3 = setitem df3 ''year_month_date_hour'' (map strftime_ymdh date) in
     Inr (rename df3 [(''ta'', ''mentor_name'')])))))"

definition slot_keys :: "string list" where
  "slot_keys = [''year_month_date_hour'', ''mentor_name'', ''time_category'']"

subsection \<open>The pipeline\<close>

text \<open>Lines 113 to 151: the table \<open>df\<close> of the sessions joined with their batch, or the
  exception that ends the run. The arguments are the records of the query results, of
  which lines 113 and 124 make tables.\<close>

definition join_sessions :: "parser \<Rightarrow> dataframe \<Rightarrow> dataframe \<Rightarrow> exn + dataframe" where
  "join_sessions parse sessions batch =
     and_then (make_df1 (DataFrame sessions)) (\<lambda>df1.
     and_then (validate_df2 (make_df2 (DataFrame batch))) (\<lambda>df2.
     and_then (merge df1 df2 session_batch_keys Inner) (\<lambda>df.
     and_then (parse_timestamps parse df) (\<lambda>df.
     and_then (add_month_diff_period df) (\<lambda>df.
     and_then (dedup_rating df) (\<lambda>df.
     and_then (add_year_month_date_hour df) (\<lambda>df.
     Inr (drop_duplicates df))))))))"

text \<open>Lines 113 to 160: the three published tables \<open>(df, df3, df4)\<close>, or the exception
  that ends the run.\<close>

definition join_pipeline ::
  "parser \<Rightarrow> dataframe \<Rightarrow> dataframe \<Rightarrow> dataframe \<Rightarrow> exn + (dataframe \<times> dataframe \<times> dataframe)" where
  "join_pipeline parse sessions batch slots =
     and_then (join_sessions parse sessions batch) (\<lambda>df.
     and_then (make_df3 parse (DataFrame slots)) (\<lambda>df3.
     and_then (merge df df3 slot_keys Outer) (\<lambda>df4.
     Inr (df, df3, df4))))"

section \<open>The run (lines 18 to 110 and 163 to 183)\<close>

text \<open>
  Everything outside the process is an oracle of the \<open>world\<close>: the environment, the two
  authentications, each HTTP request (by URL, session token and number of the attempt) and
  each call on the spreadsheet (by worksheet title and number of the attempt). A response
  is taken with its body already decoded into the table of its JSON records. The run is the
  exception it ends with, if any, and the trace of the calls it made, in order.

  The three fetches run on a pool of three threads and the script waits for all of them;
  the trace lists their calls one fetch after the other, and the interleaving of the
  threads is not modelled. Messages are written without the emoji of the source.
\<close>

datatype event =
    Login string
  | Request "string option"
  | Sleep nat
  | OpenSheet string
  | GetWorksheet string
  | Clear string
  | Update string dataframe

record world =
  env :: "string \<Rightarrow> string option"
  google_authorize :: "string \<Rightarrow> exn option"
  metabase_login :: "string \<Rightarrow> string option \<Rightarrow> string \<Rightarrow> exn + string"
  requests_post :: "string \<Rightarrow> string \<Rightarrow> nat \<Rightarrow> exn + dataframe"
  gc_open_by_key :: "string \<Rightarrow> exn option"
  sheet_worksheet :: "string \<Rightarrow> exn option"
  worksheet_clear :: "string \<Rightarrow> nat \<Rightarrow> exn option"
  set_with_dataframe :: "string \<Rightarrow> nat \<Rightarrow> dataframe \<Rightarrow> exn option"

subsection \<open>\<^verbatim>\<open>fetch_with_retry\<close> (lines 66 to 77)\<close>

text \<open>One attempt: \<^verbatim>\<open>requests.post\<close> followed by \<^verbatim>\<open>raise_for_status\<close>. An unset
  query reference reaches \<^verbatim>\<open>requests.post\<close> as \<^verbatim>\<open>None\<close>, which it refuses with
  an exception before any network traffic.\<close>

definition attempt_post :: "world \<Rightarrow> string option \<Rightarrow> string \<Rightarrow> nat \<Rightarrow> exn + dataframe" where
  "attempt_post w url headers attempt =
     (case url of
        None \<Rightarrow> Inl (External ''MissingSchema: Invalid URL'')
      | Some u \<Rightarrow> requests_post w u headers attempt)"

text \<open>The body of the \<^verbatim>\<open>for\<close> loop over \<^verbatim>\<open>range(1, retries + 1)\<close>. A loop that
  ends without \<^verbatim>\<open>return\<close> or \<^verbatim>\<open>raise\<close> returns \<^verbatim>\<open>None\<close>.\<close>

fun fetch_loop ::
  "world \<Rightarrow> string option \<Rightarrow> string \<Rightarrow> nat \<Rightarrow> nat \<Rightarrow> nat list \<Rightarrow> (exn + dataframe option) \<times> event list" where
  "fetch_loop w url headers retries delay [] = (Inr None, [])"
| "fetch_loop w url headers retries delay (attempt # rest) =
     (case attempt_post w url headers attempt of
        Inr r \<Rightarrow> (Inr (Some r), [Request url])
      | Inl e \<Rightarrow>
          if attempt < retries
          then (case fetch_loop w url headers retries delay rest of
                  (res, evs) \<Rightarrow> (res, Request url # Sleep delay # evs))
          else (Inl e, [Request url]))"

definition fetch_with_retry ::
  "world \<Rightarrow> string option \<Rightarrow> string \<Rightarrow> nat \<Rightarrow> nat \<Rightarrow> (exn + dataframe option) \<times> event list" where
  "fetch_with_retry w url headers retries delay =
     fetch_loop w url headers retries delay [1..<retries + 1]"

subsection \<open>\<^verbatim>\<open>safe_clear_and_update\<close> (lines 79 to 95)\<close>

definition clear_and_update :: "world \<Rightarrow> string \<Rightarrow> dataframe \<Rightarrow> nat \<Rightarrow> exn option \<times> event list" where
  "clear_and_update w title df attempt =
     (case worksheet_clear w title attempt of
        Some e \<Rightarrow> (Some e, [Clear title])
      | None \<Rightarrow> (set_with_dataframe w title attempt df, [Clear title, Update title df]))"

fun publish_loop :: "world \<Rightarrow> string \<Rightarrow> dataframe \<Rightarrow> nat list \<Rightarrow> exn option \<times> event list" where
  "publish_loop w title df [] = (None, [])"
| "publish_loop w title df (attempt # rest) =
     (case clear_and_update w title df attempt of
        (None, evs) \<Rightarrow> (None, evs)
      | (Some e, evs) \<Rightarrow>
          if attempt < 5
          then (case publish_loop w title df rest of
                  (res, evs') \<Rightarrow> (res, evs @ Sleep 20 # evs'))
          else (Some e, evs))"

definition safe_clear_and_update :: "world \<Rightarrow> string \<Rightarrow> dataframe \<Rightarrow> exn option \<times> event list" where
  "safe_clear_and_update w title df = publish_loop w title df [1..<6]"

subsection \<open>The three fetches (lines 100 to 124)\<close>

text \<open>\<^verbatim>\<open>f.result()\<close> is read for sessions, batch and slots in this order, so the first
  failed fetch in this order is the exception of the run.\<close>

definition fetch_all ::
  "world \<Rightarrow> string \<Rightarrow> (exn + dataframe option \<times> dataframe option \<times> dataframe option) \<times> event list" where
  "fetch_all w token =
     (case fetch_with_retry w (env w ''TA_SESSIONS_QUERY'') token 5 15 of (r1, t1) \<Rightarrow>
      case fetch_with_retry w (env w ''TA_BATCH_QUERY'') token 5 15 of (r2, t2) \<Rightarrow>
      case fetch_with_retry w (env w ''TA_SLOTS_QUERY'') token 5 15 of (r3, t3) \<Rightarrow>
        (and_then r1 (\<lambda>a. and_then r2 (\<lambda>b. and_then r3 (\<lambda>c. Inr (a, b, c)))), t1 @ t2 @ t3))"

text \<open>\<^verbatim>\<open>results[name].json()\<close> on the value a fetch returned. The script calls it
  for the batch and the slots results between the steps of the pipeline; here the three
  calls come first, which makes no difference since none of them can fail on a response.\<close>

definition json :: "dataframe option \<Rightarrow> exn + dataframe" where
  "json r = (case r of None \<Rightarrow> Inl (AttributeError ''NoneType has no attribute json'') | Some t \<Rightarrow> Inr t)"

definition fetch_and_join ::
  "parser \<Rightarrow> dataframe option \<times> dataframe option \<times> dataframe option \<Rightarrow>
     exn + (dataframe \<times> dataframe \<times> dataframe)" where
  "fetch_and_join parse results =
     (case results of (s, b, sl) \<Rightarrow>
        and_then (json s) (\<lambda>sessions.
        and_then (json b) (\<lambda>batch.
        and_then (json sl) (\<lambda>slots.
        join_pipeline parse sessions batch slots))))"

subsection \<open>Publishing (lines 163 to 170)\<close>

definition write_sheet :: "world \<Rightarrow> string \<Rightarrow> dataframe \<Rightarrow> exn option \<times> event list" where
  "write_sheet w title df =
     (case sheet_worksheet w title of
        Some e \<Rightarrow> (Some e, [GetWorksheet title])
      | None \<Rightarrow> (case safe_clear_and_update w title df of (r, t) \<Rightarrow> (r, GetWorksheet title # t)))"

definition publish ::
  "world \<Rightarrow> string \<Rightarrow> dataframe \<Rightarrow> dataframe \<Rightarrow> dataframe \<Rightarrow> exn option \<times> event list" where
  "publish w key df df3 df4 =
     (case gc_open_by_key w key of
        Some e \<Rightarrow> (Some e, [OpenSheet key])
      | None \<Rightarrow>
     (case write_sheet w ''TA_sessions'' df of
        (Some e, t1) \<Rightarrow> (Some e, OpenSheet key # t1)
      | (None, t1) \<Rightarrow>
     (case write_sheet w ''TA_slots'' df3 of
        (Some e, t2) \<Rightarrow> (Some e, OpenSheet key # t1 @ Sleep 3 # t2)
      | (None, t2) \<Rightarrow>
     (case write_sheet w ''TA-sessions-all'' df4 of
        (r, t3) \<Rightarrow> (r, OpenSheet key # t1 @ Sleep 3 # t2 @ Sleep 3 # t3)))))"

subsection \<open>Environment and the whole script\<close>

text \<open>\<^verbatim>\<open>not x\<close> on the result of \<^verbatim>\<open>os.getenv\<close>: unset or empty.\<close>

definition unset :: "string option \<Rightarrow> bool" where
  "unset x \<longleftrightarrow> x = None \<or> x = Some []"

definition rstrip_slash :: "string \<Rightarrow> string" where
  "rstrip_slash s = rev (dropWhile (\<lambda>c. c = CHR ''/'') (rev s))"

text \<open>Lines 18 to 34: the configuration, or the exception raised while loading it.
  The result is \<open>(MB_URL, sec, service_account_json, TA_SHEET_KEY)\<close>.\<close>

definition load_env :: "world \<Rightarrow> exn + (string \<times> string \<times> string \<times> string)" where
  "load_env w =
     (case env w ''METABASE_URL'' of
        None \<Rightarrow> Inl (AttributeError ''NoneType has no attribute rstrip'')
      | Some base \<Rightarrow>
          if unset (env w ''ASHRITHA_SECRET_KEY'') \<or> unset (env w ''SERVICE_ACCOUNT_JSON'')
          then Inl (ValueError ''Missing environment variables. Check GitHub secrets.'')
          else if unset (env w ''TA_SHEET_ACCESS_KEY'')
          then Inl (ValueError ''TA_SHEET_ACCESS_KEY is not set. Check GitHub secrets.'')
          else (case (env w ''ASHRITHA_SECRET_KEY'', env w ''SERVICE_ACCOUNT_JSON'',
                      env w ''TA_SHEET_ACCESS_KEY'') of
                  (Some sec, Some service_account_json, Some TA_SHEET_KEY) \<Rightarrow>
                    Inr (rstrip_slash base @ ''/api/session'', sec, service_account_json, TA_SHEET_KEY)
                | _ \<Rightarrow> Inl (ValueError ''Missing environment variables. Check GitHub secrets.'')))"

definition main :: "world \<Rightarrow> parser \<Rightarrow> exn option \<times> event list" where
  "main w parse =
     (case load_env w of
        Inl e \<Rightarrow> (Some e, [])
      | Inr (MB_URL, sec, service_account_json, TA_SHEET_KEY) \<Rightarrow>
     (case google_authorize w service_account_json of
        Some e \<Rightarrow> (Some e, [])
      | None \<Rightarrow>
     (case metabase_login w MB_URL (env w ''USERNAME'') sec of
        Inl e \<Rightarrow> (Some e, [Login MB_URL])
      | Inr token \<Rightarrow>
     (case fetch_all w token of (results, t) \<Rightarrow>
     (case and_then results (fetch_and_join parse) of
        Inl e \<Rightarrow> (Some e, Login MB_URL # t)
      | Inr (df, df3, df4) \<Rightarrow>
     (case publish w TA_SHEET_KEY df df3 df4 of
        (r, t') \<Rightarrow> (r, Login MB_URL # t @ t')))))))"

text \<open>The statements after the last publish (lines 172 to 183) print the time stamp and
  the elapsed time; they are not modelled. The exit status of the process: an uncaught
  exception ends it with status 1.\<close>

definition exit_status :: "exn option \<Rightarrow> nat" where
  "exit_status r = (case r of None \<Rightarrow> 0 | Some e \<Rightarrow> 1)"

text \<open>A write to the destination is a clear or an update of a worksheet; a step of the
  publishing stage is any call on the spreadsheet.\<close>

fun is_write :: "event \<Rightarrow> bool" where
  "is_write (Clear title) = True"
| "is_write (Update title df) = True"
| "is_write ev = False"

fun is_publish :: "event \<Rightarrow> bool" where
  "is_publish (OpenSheet key) = True"
| "is_publish (GetWorksheet title) = True"
| "is_publish (Clear title) = True"
| "is_publish (Update title df) = True"
| "is_publish ev = False"

fun is_request :: "event \<Rightarrow> bool" where
  "is_request (Request url) = True"
| "is_request ev = False"


section \<open>Concrete inputs\<close>

text \<open>Query results used to run the definitions. \<open>ex_parse\<close> reads the timestamps of
  these tables as pandas does, in any column, and refuses every other value.\<close>

definition ex_start :: timestamp where
  "ex_start = \<lparr>year = 2024, month = 3, day = 5, hour = 8, minute = 0, second = 0\<rparr>"

definition ex_batch_start :: timestamp where
  "ex_batch_start = \<lparr>year = 2024, month = 1, day = 20, hour = 23, minute = 0, second = 0\<rparr>"

definition ex_parse :: parser where
  "ex_parse col c =
     (if c = Str ''2024-03-05T08:00'' then Parsed ex_start
      else if c = Str ''2024-01-20T23:00'' then Parsed ex_batch_start
      else Unparseable)"

definition ex_sessions :: dataframe where
  "ex_sessions =
     \<lparr>columns = [''session_id'', ''lu_batch_name'', ''au_batch_name'', ''au_start_date'',
        ''subjective_feedback'', ''feedback_given'', ''rating'', ''description'', ''module_name'',
        ''topic'', ''cancel_reason'', ''action_time'', ''booked_time'', ''session_start_time''],
      rows = [[Num 7, Str ''B1'', Str ''B1'', Str ''2024-01-20T23:00'', Null, Num 1, Num 5, Null,
               Str ''M'', Str ''T'', Null, Null, Null, Str ''2024-03-05T08:00''],
              [Num 8, Str ''B1'', Str ''B1'', Str ''2024-01-20T23:00'', Null, Num 1, Num 4, Null,
               Str ''M'', Str ''T'', Null, Null, Null, Str ''not a date'']]\<rparr>"

definition ex_batch :: dataframe where
  "ex_batch =
     \<lparr>columns = [''session_id'', ''batch'', ''mentor_name'', ''time_category'', ''session_start_time''],
      rows = [[Num 7, Str ''B1'', Str ''ann'', Str ''morning'', Str ''2024-03-05T08:00''],
              [Num 9, Str ''B1'', Str ''bob'', Str ''evening'', Str ''2024-03-05T08:00'']]\<rparr>"

definition ex_slots :: dataframe where
  "ex_slots =
     \<lparr>columns = [''date'', ''time_category'', ''ta''],
      rows = [[Str ''2024-03-05T08:00'', Str ''morning'', Str ''ann''],
              [Str ''2024-03-05T08:00'', Str ''evening'', Str ''bob'']]\<rparr>"

text \<open>The tables that lines 116 to 134 make of them.\<close>

definition ex_df1 :: dataframe where
  "ex_df1 =
     \<lparr>columns = [''subjective_feedback'', ''Batch'', ''au_batch_name'', ''au_start_date'',
        ''feedback_given'', ''session_id'', ''rating'', ''description'', ''Module'', ''topic'',
        ''cancel_reason'', ''action_time'', ''booked_time'', ''session_start_time''],
      rows = [[Null, Str ''B1'', Str ''B1'', Str ''2024-01-20T23:00'', Num 1, Num 7, Num 5, Null,
               Str ''M'', Str ''T'', Null, Null, Null, Str ''2024-03-05T08:00''],
              [Null, Str ''B1'', Str ''B1'', Str ''2024-01-20T23:00'', Num 1, Num 8, Num 4, Null,
               Str ''M'', Str ''T'', Null, Null, Null, Str ''not a date'']]\<rparr>"

definition ex_merged_columns :: "string list" where
  "ex_merged_columns =
     [''subjective_feedback'', ''Batch'', ''au_batch_name'', ''au_start_date'',
      ''feedback_given'', ''session_id'', ''rating'', ''description'', ''Module'', ''topic'',
      ''cancel_reason'', ''action_time'', ''booked_time'', ''session_start_time_x'',
      ''mentor_name'', ''time_category'', ''session_start_time_y'']"

definition ex_merged_row :: row where
  "ex_merged_row =
     [Null, Str ''B1'', Str ''B1'', Str ''2024-01-20T23:00'', Num 1, Num 7, Num 5, Null,
      Str ''M'', Str ''T'', Null, Null, Null, Str ''2024-03-05T08:00'',
      Str ''ann'', Str ''morning'', Str ''2024-03-05T08:00'']"

definition ex_merged :: dataframe where
  "ex_merged =
     \<lparr>columns = [''subjective_feedback'', ''Batch'', ''au_batch_name'', ''au_start_date'',
        ''feedback_given'', ''session_id'', ''rating'', ''description'', ''Module'', ''topic'',
        ''cancel_reason'', ''action_time'', ''booked_time'', ''session_start_time_x'',
        ''mentor_name'', ''time_category'', ''session_start_time_y''],
      rows = [ex_merged_row]\<rparr>"

text \<open>A sessions query result with the one session of the specification's example for
  the month difference: it starts at \<^verbatim>\<open>2024-03-05T08:00\<close> in a batch that started at
  \<^verbatim>\<open>2024-01-20T23:00\<close>.\<close>

definition ex_sessions_example :: dataframe where
  "ex_sessions_example =
     \<lparr>columns = columns ex_sessions,
      rows = [[Num 7, Str ''B1'', Str ''B1'', Str ''2024-01-20T23:00'', Null, Num 1, Num 5, Null,
               Str ''M'', Str ''T'', Null, Null, Null, Str ''2024-03-05T08:00'']]\<rparr>"

definition ex_df1_example :: dataframe where
  "ex_df1_example =
     \<lparr>columns = columns ex_df1,
      rows = [[Null, Str ''B1'', Str ''B1'', Str ''2024-01-20T23:00'', Num 1, Num 7, Num 5, Null,
               Str ''M'', Str ''T'', Null, Null, Null, Str ''2024-03-05T08:00'']]\<rparr>"

text \<open>A sessions query result in which session 7 has two rows, rated 5 and 4, and the
  tables that lines 116 to 134 make of it and \<open>ex_batch\<close>.\<close>

definition ex_sessions_twice :: dataframe where
  "ex_sessions_twice =
     \<lparr>columns = columns ex_sessions,
      rows = [[Num 7, Str ''B1'', Str ''B1'', Str ''2024-01-20T23:00'', Null, Num 1, Num 5, Null,
               Str ''M'', Str ''T'', Null, Null, Null, Str ''2024-03-05T08:00''],
              [Num 7, Str ''B1'', Str ''B1'', Str ''2024-01-20T23:00'', Str ''fine'', Num 1, Num 4, Null,
               Str ''M'', Str ''T'', Null, Null, Null, Str ''2024-03-05T08:00'']]\<rparr>"

definition ex_df1_twice :: dataframe where
  "ex_df1_twice =
     \<lparr>columns = columns ex_df1,
      rows = [[Null, Str ''B1'', Str ''B1'', Str ''2024-01-20T23:00'', Num 1, Num 7, Num 5, Null,
               Str ''M'', Str ''T'', Null, Null, Null, Str ''2024-03-05T08:00''],
              [Str ''fine'', Str ''B1'', Str ''B1'', Str ''2024-01-20T23:00'', Num 1, Num 7, Num 4, Null,
               Str ''M'', Str ''T'', Null, Null, Null, Str ''2024-03-05T08:00'']]\<rparr>"

definition ex_merged_twice :: dataframe where
  "ex_merged_twice =
     \<lparr>columns = ex_merged_columns,
      rows = [[Null, Str ''B1'', Str ''B1'', Str ''2024-01-20T23:00'', Num 1, Num 7, Num 5, Null,
               Str ''M'', Str ''T'', Null, Null, Null, Str ''2024-03-05T08:00'',
               Str ''ann'', Str ''morning'', Str ''2024-03-05T08:00''],
              [Str ''fine'', Str ''B1'', Str ''B1'', Str ''2024-01-20T23:00'', Num 1, Num 7, Num 4, Null,
               Str ''M'', Str ''T'', Null, Null, Null, Str ''2024-03-05T08:00'',
               Str ''ann'', Str ''morning'', Str ''2024-03-05T08:00'']]\<rparr>"

text \<open>Query results in which session 7 has no start time, and the tables that lines
  116 to 134 make of them.\<close>

definition ex_sessions_no_start :: dataframe where
  "ex_sessions_no_start =
     \<lparr>columns = columns ex_sessions,
      rows = [[Num 7, Str ''B1'', Str ''B1'', Str ''2024-01-20T23:00'', Null, Num 1, Num 5, Null,
               Str ''M'', Str ''T'', Null, Null, Null, Null]]\<rparr>"

definition ex_batch_no_start :: dataframe where
  "ex_batch_no_start =
     \<lparr>columns = columns ex_batch,
      rows = [[Num 7, Str ''B1'', Str ''ann'', Str ''morning'', Null]]\<rparr>"

definition ex_df1_no_start :: dataframe where
  "ex_df1_no_start =
     \<lparr>columns = columns ex_df1,
      rows = [[Null, Str ''B1'', Str ''B1'', Str ''2024-01-20T23:00'', Num 1, Num 7, Num 5, Null,
               Str ''M'', Str ''T'', Null, Null, Null, Null]]\<rparr>"

definition ex_merged_no_start :: dataframe where
  "ex_merged_no_start =
     \<lparr>columns = ex_merged_columns,
      rows = [[Null, Str ''B1'', Str ''B1'', Str ''2024-01-20T23:00'', Num 1, Num 7, Num 5, Null,
               Str ''M'', Str ''T'', Null, Null, Null, Null, Str ''ann'', Str ''morning'', Null]]\<rparr>"

text \<open>A slots query result with the one slot of another mentor, which no session of
  \<open>ex_sessions_example\<close> matches, and one with a date that does not parse.\<close>

definition ex_slots_evening :: dataframe where
  "ex_slots_evening =
     \<lparr>columns = [''date'', ''time_category'', ''ta''],
      rows = [[Str ''2024-03-05T08:00'', Str ''evening'', Str ''bob'']]\<rparr>"


text \<open>
  A world in which every service answers at once: the environment \<open>vars\<close>, the login
  returns a token, each query returns its table on every attempt and the spreadsheet
  accepts every call. \<open>ex_env\<close> sets every variable the script reads.
\<close>

definition ex_env :: "string \<Rightarrow> string option" where
  "ex_env = map_of
     [(''ASHRITHA_SECRET_KEY'', ''secret''), (''USERNAME'', ''user''),
      (''SERVICE_ACCOUNT_JSON'', ''{}''), (''METABASE_URL'', ''https://mb.example/''),
      (''TA_SHEET_ACCESS_KEY'', ''sheet''), (''TA_SESSIONS_QUERY'', ''card/6135''),
      (''TA_BATCH_QUERY'', ''card/6570''), (''TA_SLOTS_QUERY'', ''card/6213'')]"

definition ex_world :: "(string \<Rightarrow> string option) \<Rightarrow> dataframe \<Rightarrow> dataframe \<Rightarrow> dataframe \<Rightarrow> world" where
  "ex_world vars sessions batch slots =
     \<lparr>env = vars,
      google_authorize = (\<lambda>payload. None),
      metabase_login = (\<lambda>url user password. Inr ''token''),
      requests_post = (\<lambda>url headers attempt.
         if url = ''card/6135'' then Inr sessions
         else if url = ''card/6570'' then Inr batch
         else Inr slots),
      gc_open_by_key = (\<lambda>key. None),
      sheet_worksheet = (\<lambda>title. None),
      worksheet_clear = (\<lambda>title attempt. None),
      set_with_dataframe = (\<lambda>title attempt df. None)\<rparr>"

text \<open>The same world when the batch query fails: on its first four attempts, or on all.\<close>

definition ex_flaky_world :: "nat \<Rightarrow> world" where
  "ex_flaky_world failures =
     (ex_world ex_env ex_sessions ex_batch ex_slots)
       \<lparr>requests_post := (\<lambda>url headers attempt.
          if url = ''card/6570''
          then (if attempt \<le> failures then Inl (External ''503 Server Error'') else Inr ex_batch)
          else if url = ''card/6135'' then Inr ex_sessions
          else Inr ex_slots)\<rparr>"

text \<open>A batch query result without \<^verbatim>\<open>mentor_name\<close>, and a sessions query result
  without rows, which has no columns.\<close>

definition ex_batch_no_mentor :: dataframe where
  "ex_batch_no_mentor =
     \<lparr>columns = [''session_id'', ''batch'', ''time_category'', ''session_start_time''],
      rows = [[Num 7, Str ''B1'', Str ''morning'', Str ''2024-03-05T08:00'']]\<rparr>"

definition ex_empty :: dataframe where
  "ex_empty = \<lparr>columns = [], rows = []\<rparr>"

definition ex_login_url :: string where
  "ex_login_url = ''https://mb.example/api/session''"

text \<open>The trace of a run whose login and three fetches succeed at the first attempt and
  that makes no other call.\<close>

definition ex_fetched :: "event list" where
  "ex_fetched =
     [Login ex_login_url, Request (Some ''card/6135''), Request (Some ''card/6570''),
      Request (Some ''card/6213'')]"

section \<open>Vocabulary of the properties\<close>

text \<open>The number of attempts of a fetch that fail before the first one that succeeds,
  among the five attempts that \<^verbatim>\<open>fetch_with_retry\<close> can make.\<close>

definition failures :: "world \<Rightarrow> string option \<Rightarrow> string \<Rightarrow> nat" where
  "failures w url headers =
     length (takeWhile isl (map (attempt_post w url headers) [1, 2, 3, 4, 5]))"

text \<open>The trace of a fetch whose first four attempts fail.\<close>

definition five_requests :: "string option \<Rightarrow> event list" where
  "five_requests url =
     [Request url, Sleep 15, Request url, Sleep 15, Request url, Sleep 15,
      Request url, Sleep 15, Request url]"

section \<open>Properties\<close>

subsection \<open>Reading cells and merging\<close>

lemma and_then_Inr: "and_then x f = Inr y \<longleftrightarrow> (\<exists>v. x = Inr v \<and> f v = Inr y)"
  by (cases x) (simp_all add: and_then_def)

lemma and_then_Inl: "and_then x f = Inl e \<longleftrightarrow> x = Inl e \<or> (\<exists>v. x = Inr v \<and> f v = Inl e)"
  by (cases x) (simp_all add: and_then_def)

lemma cell_at_map:
  "distinct (map f cs) \<Longrightarrow> c \<in> set cs \<Longrightarrow> cell_at (map f cs @ ds) (map g cs @ es) (f c) = g c"
  by (induction cs) auto

lemma DataFrame_columns: "columns (DataFrame t) = columns t"
  by (simp add: DataFrame_def)

lemma merge_Inr:
  assumes "merge left right on how = Inr df"
  shows "set on \<subseteq> set (columns left)" "set on \<subseteq> set (columns right)"
    "distinct (columns left)" "distinct (columns right)" "distinct (columns df)"
    "columns df = merged_columns (columns left) (columns right) on"
    "how = Inner \<Longrightarrow>
       rows df = inner_rows (columns left) (columns right) on (rows left) (rows right)"
  using assms
  by (auto simp: merge_def Let_def filter_empty_conv DataFrame_columns split: if_splits how.splits)

lemma lsuffix_key: "k \<in> set on \<Longrightarrow> lsuffix on rc k = k"
  by (simp add: lsuffix_def)

lemma left_cell_merged:
  assumes "distinct (merged_columns lc rc on)" and "c \<in> set lc"
  shows "cell_at (merged_columns lc rc on) (map g lc @ es) (lsuffix on rc c) = g c"
  using assms cell_at_map [of "lsuffix on rc" lc c _ g es] by (simp add: merged_columns_def)

lemma key_of_merged:
  assumes "distinct (merged_columns lc rc on)" and "set on \<subseteq> set lc"
  shows "key_of (merged_columns lc rc on) on (map g lc @ es) = map g on"
proof -
  have "cell_at (merged_columns lc rc on) (map g lc @ es) k = g k" if "k \<in> set on" for k
    using left_cell_merged [OF assms(1), of k g es] that assms(2) by (auto simp: lsuffix_key)
  then show ?thesis by (simp add: key_of_def)
qed

lemma key_of_both_row:
  assumes "distinct (merged_columns lc rc on)" and "set on \<subseteq> set lc"
  shows "key_of (merged_columns lc rc on) on (both_row lc rc on l r) = key_of lc on l"
  using key_of_merged [OF assms] by (simp add: both_row_def key_of_def)

lemma in_inner_rows:
  "out \<in> set (inner_rows lc rc on ls rs) \<longleftrightarrow>
     (\<exists>l\<in>set ls. \<exists>r\<in>set rs. key_of rc on r = key_of lc on l \<and> out = both_row lc rc on l r)"
  by (auto simp: inner_rows_def)

lemma has_match_iff: "has_match cols on k rs \<longleftrightarrow> (\<exists>r\<in>set rs. key_of cols on r = k)"
  by (simp add: has_match_def list_ex_iff)

subsection \<open>The session and batch merge (line 134)\<close>

text \<open>
  Claim C2. Every row of the inner merge of \<open>df1\<close> and \<open>df2\<close> on \<open>(session_id, Batch)\<close>
  is built from a row of \<open>df1\<close> and a row of \<open>df2\<close> that both carry the row's
  \<open>(session_id, Batch)\<close> pair. So a row of either table whose pair has no match in the other
  table gives no row of the result: no row of the result carries its pair.
\<close>

theorem inner_merge_keys_in_both:
  assumes "merge df1 df2 session_batch_keys Inner = Inr df"
    and "out \<in> set (rows df)"
  shows "(\<exists>l\<in>set (rows df1). \<exists>r\<in>set (rows df2).
            key_of (columns df) session_batch_keys out = key_of (columns df1) session_batch_keys l \<and>
            key_of (columns df) session_batch_keys out = key_of (columns df2) session_batch_keys r \<and>
            out = both_row (columns df1) (columns df2) session_batch_keys l r) \<and>
         (\<forall>l\<in>set (rows df1).
            \<not> has_match (columns df2) session_batch_keys (key_of (columns df1) session_batch_keys l) (rows df2) \<longrightarrow>
            key_of (columns df) session_batch_keys out \<noteq> key_of (columns df1) session_batch_keys l) \<and>
         (\<forall>r\<in>set (rows df2).
            \<not> has_match (columns df1) session_batch_keys (key_of (columns df2) session_batch_keys r) (rows df1) \<longrightarrow>
            key_of (columns df) session_batch_keys out \<noteq> key_of (columns df2) session_batch_keys r)"
proof -
  let ?on = session_batch_keys
  note m = merge_Inr [OF assms(1)]
  from assms(2) m(7) obtain l r where lr: "l \<in> set (rows df1)" "r \<in> set (rows df2)"
    "key_of (columns df2) ?on r = key_of (columns df1) ?on l"
    "out = both_row (columns df1) (columns df2) ?on l r"
    by (auto simp: in_inner_rows)
  have k: "key_of (columns df) ?on out = key_of (columns df1) ?on l"
    using key_of_both_row [of "columns df1" "columns df2" ?on l r] m(1,5,6) lr(4) by simp
  with lr(3,4) have "key_of (columns df) ?on out = key_of (columns df1) ?on l \<and>
      key_of (columns df) ?on out = key_of (columns df2) ?on r \<and>
      out = both_row (columns df1) (columns df2) ?on l r"
    by simp
  with lr(1,2) have first: "\<exists>l\<in>set (rows df1). \<exists>r\<in>set (rows df2).
      key_of (columns df) ?on out = key_of (columns df1) ?on l \<and>
      key_of (columns df) ?on out = key_of (columns df2) ?on r \<and>
      out = both_row (columns df1) (columns df2) ?on l r"
    by blast
  have second: "key_of (columns df) ?on out \<noteq> key_of (columns df1) ?on l'"
    if "\<not> has_match (columns df2) ?on (key_of (columns df1) ?on l') (rows df2)" for l'
    using that k lr(2,3) by (auto simp: has_match_iff)
  have third: "key_of (columns df) ?on out \<noteq> key_of (columns df2) ?on r'"
    if "\<not> has_match (columns df1) ?on (key_of (columns df2) ?on r') (rows df1)" for r'
    using that k lr(1) by (auto simp: has_match_iff)
  from first second third show ?thesis by blast
qed

theorem inner_merge_keys_in_both_witness:
  "make_df1 ex_sessions = Inr ex_df1 \<and>
   merge ex_df1 (make_df2 ex_batch) session_batch_keys Inner = Inr ex_merged \<and>
   rows ex_merged = [ex_merged_row] \<and>
   key_of (columns ex_merged) session_batch_keys ex_merged_row = [Num 7, Str ''B1''] \<and>
   (\<exists>l\<in>set (rows ex_df1). \<exists>r\<in>set (rows (make_df2 ex_batch)).
      key_of (columns ex_merged) session_batch_keys ex_merged_row =
        key_of (columns ex_df1) session_batch_keys l \<and>
      key_of (columns ex_merged) session_batch_keys ex_merged_row =
        key_of (columns (make_df2 ex_batch)) session_batch_keys r \<and>
      ex_merged_row = both_row (columns ex_df1) (columns (make_df2 ex_batch)) session_batch_keys l r)"
proof -
  have a: "make_df1 ex_sessions = Inr ex_df1"
    by code_simp
  have b: "merge ex_df1 (make_df2 ex_batch) session_batch_keys Inner = Inr ex_merged"
    by code_simp
  have c: "rows ex_merged = [ex_merged_row]"
    by (simp add: ex_merged_def)
  have d: "key_of (columns ex_merged) session_batch_keys ex_merged_row = [Num 7, Str ''B1'']"
    by code_simp
  have e: "ex_merged_row \<in> set (rows ex_merged)"
    by (simp add: c)
  from inner_merge_keys_in_both [OF b e] a b c d show ?thesis
    by blast
qed

subsection \<open>The merged table has no column \<^verbatim>\<open>session_start_time\<close>\<close>

text \<open>
  \<open>df1\<close> keeps \<^verbatim>\<open>session_start_time\<close> (line 119) and \<open>df2\<close> must have it (line 128).
  It is not a key of the merge of line 134, so the merged table holds it twice, as
  \<^verbatim>\<open>session_start_time_x\<close> and \<^verbatim>\<open>session_start_time_y\<close>, and under no other label.
  Line 137 reads \<^verbatim>\<open>df['session_start_time']\<close>.
\<close>

lemma getitem_Inr:
  "getitem df c = Inr vs \<longleftrightarrow> c \<in> set (columns df) \<and> vs = map (\<lambda>r. cell_at (columns df) r c) (rows df)"
  by (auto simp: getitem_def)

lemma make_df1_columns:
  assumes "make_df1 sessions = Inr df1"
  shows "columns df1 =
     [''subjective_feedback'', ''Batch'', ''au_batch_name'', ''au_start_date'',
      ''feedback_given'', ''session_id'', ''rating'', ''description'', ''Module'',
      ''topic'', ''cancel_reason'', ''action_time'', ''booked_time'', ''session_start_time'']"
proof -
  from assms obtain d where d: "select_columns sessions df1_columns = Inr d"
    and df1: "df1 = rename d [(''lu_batch_name'', ''Batch''), (''module_name'', ''Module'')]"
    by (auto simp: make_df1_def and_then_Inr)
  from d have "columns d = df1_columns"
    by (auto simp: select_columns_def Let_def split: if_splits)
  then show ?thesis unfolding df1 by (simp add: rename_def df1_columns_def)
qed

lemma suffix_neq:
  "c @ ''_y'' \<noteq> ''session_start_time''" "c @ ''_x'' \<noteq> ''session_start_time''"
proof -
  have "last (c @ ''_y'') \<noteq> last ''session_start_time''"
    "last (c @ ''_x'') \<noteq> last ''session_start_time''"
    by simp_all
  then show "c @ ''_y'' \<noteq> ''session_start_time''" "c @ ''_x'' \<noteq> ''session_start_time''"
    by metis+
qed

lemma lsuffix_neq:
  assumes "''session_start_time'' \<in> set rc" and "''session_start_time'' \<notin> set on"
  shows "lsuffix on rc c \<noteq> ''session_start_time''"
  using assms suffix_neq(2) [of c] by (auto simp: lsuffix_def)

lemma rsuffix_neq:
  assumes "''session_start_time'' \<in> set lc"
  shows "rsuffix lc c \<noteq> ''session_start_time''"
  using assms suffix_neq(1) [of c] by (auto simp: rsuffix_def)

lemma merged_has_no_session_start_time:
  assumes df1: "make_df1 sessions = Inr df1"
    and m: "merge df1 df2 session_batch_keys Inner = Inr df"
    and r: "''session_start_time'' \<in> set (columns df2)"
  shows "''session_start_time'' \<notin> set (columns df)"
proof -
  have l: "''session_start_time'' \<in> set (columns df1)"
    by (simp add: make_df1_columns [OF df1])
  have k: "''session_start_time'' \<notin> set session_batch_keys"
    by (simp add: session_batch_keys_def)
  show ?thesis
    using lsuffix_neq [OF r k] rsuffix_neq [OF l]
    unfolding merge_Inr(6) [OF m] merged_columns_def by (auto simp: image_iff) metis+
qed

lemma validate_df2_Inr:
  assumes "validate_df2 d = Inr df2"
  shows "df2 = d" and "set required_df2_cols \<subseteq> set (columns d)"
  using assms by (auto simp: validate_df2_def missing_def filter_empty_conv split: if_splits)

text \<open>So line 137 raises on every table that line 134 returns, whatever the query
  results: the join returns no table.\<close>

lemma join_sessions_never_returns: "join_sessions parse sessions batch \<noteq> Inr out"
proof
  assume "join_sessions parse sessions batch = Inr out"
  then obtain df1 df2 df where df1: "make_df1 (DataFrame sessions) = Inr df1"
    and df2: "validate_df2 (make_df2 (DataFrame batch)) = Inr df2"
    and m: "merge df1 df2 session_batch_keys Inner = Inr df"
    and p: "\<exists>d. parse_timestamps parse df = Inr d"
    unfolding join_sessions_def and_then_Inr by blast
  from validate_df2_Inr [OF df2] have "''session_start_time'' \<in> set (columns df2)"
    by (auto simp: required_df2_cols_def)
  from merged_has_no_session_start_time [OF df1 m this] p show False
    by (auto simp: parse_timestamps_def getitem_def and_then_Inr)
qed

lemma join_pipeline_never_returns: "join_pipeline parse sessions batch slots \<noteq> Inr out"
  using join_sessions_never_returns [of parse sessions batch]
  by (auto simp: join_pipeline_def and_then_Inr)


text \<open>
  Claim C6 says that the join pipeline does not fail on unparseable timestamps. On the
  query results \<open>ex_sessions\<close>, \<open>ex_batch\<close> and \<open>ex_slots\<close>, where the second session starts
  at \<^verbatim>\<open>not a date\<close>, the pipeline ends with the \<^verbatim>\<open>KeyError\<close> of line 137; the tables
  pass the projection of line 116 and the validation of line 128, and the merge of line 134
  succeeds.
\<close>

theorem join_pipeline_raises_KeyError:
  "join_pipeline ex_parse ex_sessions ex_batch ex_slots = Inl (KeyError [''session_start_time'']) \<and>
   make_df1 ex_sessions = Inr ex_df1 \<and>
   validate_df2 (make_df2 ex_batch) = Inr (make_df2 ex_batch) \<and>
   merge ex_df1 (make_df2 ex_batch) session_batch_keys Inner = Inr ex_merged \<and>
   to_datetime_cell ex_parse col (Str ''not a date'') = Unparseable"
proof -
  have "join_pipeline ex_parse ex_sessions ex_batch ex_slots = Inl (KeyError [''session_start_time''])"
    by code_simp
  moreover have "make_df1 ex_sessions = Inr ex_df1"
    by code_simp
  moreover have "validate_df2 (make_df2 ex_batch) = Inr (make_df2 ex_batch)"
    by code_simp
  moreover have "merge ex_df1 (make_df2 ex_batch) session_batch_keys Inner = Inr ex_merged"
    by code_simp
  moreover have "to_datetime_cell ex_parse col (Str ''not a date'') = Unparseable"
    by (simp add: ex_parse_def)
  ultimately show ?thesis by simp
qed

theorem join_pipeline_raises_KeyError_witness:
  "\<exists>e. join_pipeline ex_parse ex_sessions ex_batch ex_slots = Inl e"
  using join_pipeline_raises_KeyError by blast

text \<open>Were line 141 reached, it would give a number to every row: \<^verbatim>\<open>astype(int)\<close>
  has no null, and a missing timestamp counts as the least 64-bit integer.\<close>

lemma month_diff_is_never_null: "\<exists>n. month_diff s a = Num n"
  by (simp add: month_diff_def)

lemma month_diff_of_missing_start:
  "month_diff Null (Ts ex_batch_start) = Num 9223372036854775160"
  by code_simp

subsection \<open>The statements after line 137 (lines 140 to 160)\<close>

text \<open>
  The claims below describe what lines 140 to 160 make of the joined table. Each is run on
  query results that exhibit its case; each run passes lines 113 to 134 and ends at line 137
  with the \<^verbatim>\<open>KeyError\<close> above, after the login and the three fetches (the trace
  \<open>ex_fetched\<close>) and before any call on the spreadsheet.
\<close>

text \<open>
  Claim C1 says that after the join of line 134 only the first row of each session keeps
  its rating. On the query results \<open>ex_sessions_twice\<close>, \<open>ex_batch\<close> and \<open>ex_slots\<close> the
  join gives two rows for session 7, rated 5 and 4. Line 137 raises on this table, so
  lines 146 to 148 do not run: the run ends with the rating 4 of the second row in place,
  and no table is published.
\<close>

theorem rating_deduplication_is_not_reached:
  "make_df1 (DataFrame ex_sessions_twice) = Inr ex_df1_twice \<and>
   validate_df2 (make_df2 (DataFrame ex_batch)) = Inr (make_df2 ex_batch) \<and>
   merge ex_df1_twice (make_df2 ex_batch) session_batch_keys Inner = Inr ex_merged_twice \<and>
   getitem ex_merged_twice ''session_id'' = Inr [Num 7, Num 7] \<and>
   getitem ex_merged_twice ''rating'' = Inr [Num 5, Num 4] \<and>
   parse_timestamps ex_parse ex_merged_twice = Inl (KeyError [''session_start_time'']) \<and>
   join_pipeline ex_parse ex_sessions_twice ex_batch ex_slots = Inl (KeyError [''session_start_time'']) \<and>
   main (ex_world ex_env ex_sessions_twice ex_batch ex_slots) ex_parse =
     (Some (KeyError [''session_start_time'']), ex_fetched)"
proof -
  have "make_df1 (DataFrame ex_sessions_twice) = Inr ex_df1_twice"
    by code_simp
  moreover have "validate_df2 (make_df2 (DataFrame ex_batch)) = Inr (make_df2 ex_batch)"
    by code_simp
  moreover have "merge ex_df1_twice (make_df2 ex_batch) session_batch_keys Inner = Inr ex_merged_twice"
    by code_simp
  moreover have "getitem ex_merged_twice ''session_id'' = Inr [Num 7, Num 7]"
    by code_simp
  moreover have "getitem ex_merged_twice ''rating'' = Inr [Num 5, Num 4]"
    by code_simp
  moreover have "parse_timestamps ex_parse ex_merged_twice = Inl (KeyError [''session_start_time''])"
    by code_simp
  moreover have "join_pipeline ex_parse ex_sessions_twice ex_batch ex_slots =
      Inl (KeyError [''session_start_time''])"
    by code_simp
  moreover have "main (ex_world ex_env ex_sessions_twice ex_batch ex_slots) ex_parse =
      (Some (KeyError [''session_start_time'']), ex_fetched)"
    by code_simp
  ultimately show ?thesis by simp
qed

theorem rating_deduplication_is_not_reached_witness:
  "getitem ex_merged_twice ''rating'' = Inr [Num 5, Num 4] \<and>
   (\<exists>e. main (ex_world ex_env ex_sessions_twice ex_batch ex_slots) ex_parse = (Some e, ex_fetched))"
  using rating_deduplication_is_not_reached by blast

text \<open>
  Claim C3 says that \<open>df4\<close> holds every row of \<open>df\<close> and of \<open>df3\<close>. On the query results
  \<open>ex_sessions_example\<close>, \<open>ex_batch\<close> and \<open>ex_slots_evening\<close> there is a session of mentor
  \<^verbatim>\<open>ann\<close> in the morning and a slot of mentor \<^verbatim>\<open>bob\<close> in the evening: neither matches
  a row of the other table, and \<open>df4\<close> should hold both, padded with nulls. The run ends at
  line 137: line 160 does not run, there is no \<open>df4\<close>, and no worksheet is written.
\<close>

theorem outer_merge_is_not_reached:
  "make_df1 (DataFrame ex_sessions_example) = Inr ex_df1_example \<and>
   merge ex_df1_example (make_df2 (DataFrame ex_batch)) session_batch_keys Inner = Inr ex_merged \<and>
   rows (DataFrame ex_slots_evening) = [[Str ''2024-03-05T08:00'', Str ''evening'', Str ''bob'']] \<and>
   join_sessions ex_parse ex_sessions_example ex_batch = Inl (KeyError [''session_start_time'']) \<and>
   join_pipeline ex_parse ex_sessions_example ex_batch ex_slots_evening =
     Inl (KeyError [''session_start_time'']) \<and>
   main (ex_world ex_env ex_sessions_example ex_batch ex_slots_evening) ex_parse =
     (Some (KeyError [''session_start_time'']), ex_fetched) \<and>
   list_all (\<lambda>ev. \<not> is_publish ev)
     (snd (main (ex_world ex_env ex_sessions_example ex_batch ex_slots_evening) ex_parse))"
proof -
  have "make_df1 (DataFrame ex_sessions_example) = Inr ex_df1_example"
    by code_simp
  moreover have "merge ex_df1_example (make_df2 (DataFrame ex_batch)) session_batch_keys Inner =
      Inr ex_merged"
    by code_simp
  moreover have "rows (DataFrame ex_slots_evening) =
      [[Str ''2024-03-05T08:00'', Str ''evening'', Str ''bob'']]"
    by code_simp
  moreover have "join_sessions ex_parse ex_sessions_example ex_batch =
      Inl (KeyError [''session_start_time''])"
    by code_simp
  moreover have "join_pipeline ex_parse ex_sessions_example ex_batch ex_slots_evening =
      Inl (KeyError [''session_start_time''])"
    by code_simp
  moreover have "main (ex_world ex_env ex_sessions_example ex_batch ex_slots_evening) ex_parse =
      (Some (KeyError [''session_start_time'']), ex_fetched)"
    by code_simp
  moreover have "list_all (\<lambda>ev. \<not> is_publish ev)
      (snd (main (ex_world ex_env ex_sessions_example ex_batch ex_slots_evening) ex_parse))"
    by code_simp
  ultimately show ?thesis by simp
qed

theorem outer_merge_is_not_reached_witness:
  "\<exists>e. join_pipeline ex_parse ex_sessions_example ex_batch ex_slots_evening = Inl e \<and>
     fst (main (ex_world ex_env ex_sessions_example ex_batch ex_slots_evening) ex_parse) = Some e"
  using outer_merge_is_not_reached by simp

text \<open>
  Claim C4 says that \<open>month_diff_period\<close> is the difference of the calendar months, 2 for a
  session that starts at \<^verbatim>\<open>2024-03-05T08:00\<close> in a batch that started at
  \<^verbatim>\<open>2024-01-20T23:00\<close>. On the query results \<open>ex_sessions_example\<close>, \<open>ex_batch\<close> and
  \<open>ex_slots\<close> the joined table has this session, with its start under the label
  \<^verbatim>\<open>session_start_time_x\<close>; both values parse, and the subtraction of line 141 gives 2
  on their timestamps. The run ends at line 137, where \<^verbatim>\<open>df['session_start_time']\<close>
  raises: lines 140 to 143 do not run and no table has a column \<open>month_diff_period\<close>.
\<close>

theorem month_diff_period_is_not_reached:
  "merge ex_df1_example (make_df2 (DataFrame ex_batch)) session_batch_keys Inner = Inr ex_merged \<and>
   getitem ex_merged ''session_start_time_x'' = Inr [Str ''2024-03-05T08:00''] \<and>
   getitem ex_merged ''au_start_date'' = Inr [Str ''2024-01-20T23:00''] \<and>
   to_datetime_coerce ex_parse [Str ''2024-03-05T08:00''] = [Ts ex_start] \<and>
   to_datetime_coerce ex_parse [Str ''2024-01-20T23:00''] = [Ts ex_batch_start] \<and>
   month_diff (Ts ex_start) (Ts ex_batch_start) = Num 2 \<and>
   getitem ex_merged ''session_start_time'' = Inl (KeyError [''session_start_time'']) \<and>
   join_pipeline ex_parse ex_sessions_example ex_batch ex_slots = Inl (KeyError [''session_start_time'']) \<and>
   main (ex_world ex_env ex_sessions_example ex_batch ex_slots) ex_parse =
     (Some (KeyError [''session_start_time'']), ex_fetched)"
proof -
  have "merge ex_df1_example (make_df2 (DataFrame ex_batch)) session_batch_keys Inner = Inr ex_merged"
    by code_simp
  moreover have "getitem ex_merged ''session_start_time_x'' = Inr [Str ''2024-03-05T08:00'']"
    by code_simp
  moreover have "getitem ex_merged ''au_start_date'' = Inr [Str ''2024-01-20T23:00'']"
    by code_simp
  moreover have "to_datetime_coerce ex_parse [Str ''2024-03-05T08:00''] = [Ts ex_start]"
    by code_simp
  moreover have "to_datetime_coerce ex_parse [Str ''2024-01-20T23:00''] = [Ts ex_batch_start]"
    by code_simp
  moreover have "month_diff (Ts ex_start) (Ts ex_batch_start) = Num 2"
    by code_simp
  moreover have "getitem ex_merged ''session_start_time'' = Inl (KeyError [''session_start_time''])"
    by code_simp
  moreover have "join_pipeline ex_parse ex_sessions_example ex_batch ex_slots =
      Inl (KeyError [''session_start_time''])"
    by code_simp
  moreover have "main (ex_world ex_env ex_sessions_example ex_batch ex_slots) ex_parse =
      (Some (KeyError [''session_start_time'']), ex_fetched)"
    by code_simp
  ultimately show ?thesis by simp
qed

theorem month_diff_period_is_not_reached_witness:
  "getitem ex_merged ''session_start_time'' = Inl (KeyError [''session_start_time'']) \<and>
   exit_status (fst (main (ex_world ex_env ex_sessions_example ex_batch ex_slots) ex_parse)) = 1"
  using month_diff_period_is_not_reached by (simp add: exit_status_def)

text \<open>
  Claim C5 says that a session without start time gets a null \<open>year_month_date_hour\<close> and
  stands in \<open>df4\<close> with the slot columns null. On the query results \<open>ex_sessions_no_start\<close>,
  \<open>ex_batch_no_start\<close> and \<open>ex_slots\<close> the joined table has such a session, its start null
  under both labels \<^verbatim>\<open>session_start_time_x\<close> and \<^verbatim>\<open>session_start_time_y\<close>. The run
  ends at line 137: line 150 does not run, the row gets no key, and there is no \<open>df4\<close> for
  it to stand in.
\<close>

theorem null_start_key_is_not_reached:
  "make_df1 (DataFrame ex_sessions_no_start) = Inr ex_df1_no_start \<and>
   validate_df2 (make_df2 (DataFrame ex_batch_no_start)) = Inr (make_df2 ex_batch_no_start) \<and>
   merge ex_df1_no_start (make_df2 ex_batch_no_start) session_batch_keys Inner = Inr ex_merged_no_start \<and>
   getitem ex_merged_no_start ''session_start_time_x'' = Inr [Null] \<and>
   getitem ex_merged_no_start ''session_start_time_y'' = Inr [Null] \<and>
   getitem ex_merged_no_start ''year_month_date_hour'' = Inl (KeyError [''year_month_date_hour'']) \<and>
   join_pipeline ex_parse ex_sessions_no_start ex_batch_no_start ex_slots =
     Inl (KeyError [''session_start_time'']) \<and>
   main (ex_world ex_env ex_sessions_no_start ex_batch_no_start ex_slots) ex_parse =
     (Some (KeyError [''session_start_time'']), ex_fetched)"
proof -
  have "make_df1 (DataFrame ex_sessions_no_start) = Inr ex_df1_no_start"
    by code_simp
  moreover have "validate_df2 (make_df2 (DataFrame ex_batch_no_start)) = Inr (make_df2 ex_batch_no_start)"
    by code_simp
  moreover have "merge ex_df1_no_start (make_df2 ex_batch_no_start) session_batch_keys Inner =
      Inr ex_merged_no_start"
    by code_simp
  moreover have "getitem ex_merged_no_start ''session_start_time_x'' = Inr [Null]"
    by code_simp
  moreover have "getitem ex_merged_no_start ''session_start_time_y'' = Inr [Null]"
    by code_simp
  moreover have "getitem ex_merged_no_start ''year_month_date_hour'' =
      Inl (KeyError [''year_month_date_hour''])"
    by code_simp
  moreover have "join_pipeline ex_parse ex_sessions_no_start ex_batch_no_start ex_slots =
      Inl (KeyError [''session_start_time''])"
    by code_simp
  moreover have "main (ex_world ex_env ex_sessions_no_start ex_batch_no_start ex_slots) ex_parse =
      (Some (KeyError [''session_start_time'']), ex_fetched)"
    by code_simp
  ultimately show ?thesis by simp
qed

theorem null_start_key_is_not_reached_witness:
  "getitem ex_merged_no_start ''session_start_time_x'' = Inr [Null] \<and>
   snd (main (ex_world ex_env ex_sessions_no_start ex_batch_no_start ex_slots) ex_parse) = ex_fetched"
  using null_start_key_is_not_reached by simp



subsection \<open>\<^verbatim>\<open>fetch_with_retry\<close> (lines 66 to 77) and the run after a failed fetch\<close>

lemma range_1_6: "[1..<5 + 1] = [1, 2, 3, 4, 5::nat]"
  by (simp add: upt_rec)

lemma fetch_with_retry_5:
  "fetch_with_retry w url headers 5 delay = fetch_loop w url headers 5 delay [1, 2, 3, 4, 5]"
  by (simp only: fetch_with_retry_def range_1_6)

lemma fetch_loop_events:
  "ev \<in> set (snd (fetch_loop w url headers retries delay ns)) \<Longrightarrow> ev = Request url \<or> ev = Sleep delay"
  by (induction ns) (auto split: sum.splits if_splits prod.splits)

lemma fetch_loop_requests:
  "length (filter is_request (snd (fetch_loop w url headers retries delay ns))) \<le> length ns"
  by (induction ns) (auto split: sum.splits if_splits prod.splits)

lemma fetch_with_retry_events:
  "ev \<in> set (snd (fetch_with_retry w url headers retries delay)) \<Longrightarrow> ev = Request url \<or> ev = Sleep delay"
  unfolding fetch_with_retry_def by (rule fetch_loop_events)

lemma fetch_all_snd:
  "snd (fetch_all w token) =
     snd (fetch_with_retry w (env w ''TA_SESSIONS_QUERY'') token 5 15) @
     snd (fetch_with_retry w (env w ''TA_BATCH_QUERY'') token 5 15) @
     snd (fetch_with_retry w (env w ''TA_SLOTS_QUERY'') token 5 15)"
  by (simp add: fetch_all_def split: prod.splits)

lemma fetch_all_fst:
  "fst (fetch_all w token) =
     and_then (fst (fetch_with_retry w (env w ''TA_SESSIONS_QUERY'') token 5 15)) (\<lambda>a.
     and_then (fst (fetch_with_retry w (env w ''TA_BATCH_QUERY'') token 5 15)) (\<lambda>b.
     and_then (fst (fetch_with_retry w (env w ''TA_SLOTS_QUERY'') token 5 15)) (\<lambda>c. Inr (a, b, c))))"
  by (simp add: fetch_all_def split: prod.splits)

lemma is_write_is_publish: "is_write ev \<Longrightarrow> is_publish ev"
  by (cases ev) simp_all

lemma fetch_all_events:
  assumes "ev \<in> set (snd (fetch_all w token))"
  shows "\<not> is_publish ev"
proof -
  from assms obtain url where "ev \<in> set (snd (fetch_with_retry w url token 5 15))"
    unfolding fetch_all_snd by auto
  from fetch_with_retry_events [OF this] show ?thesis by auto
qed

lemma fetch_all_fails:
  assumes "fst (fetch_with_retry w (env w q) token 5 15) = Inl e"
    and "q = ''TA_SESSIONS_QUERY'' \<or> q = ''TA_BATCH_QUERY'' \<or> q = ''TA_SLOTS_QUERY''"
  shows "\<exists>e'. fst (fetch_all w token) = Inl e'"
    and "q = ''TA_SESSIONS_QUERY'' \<Longrightarrow> fst (fetch_all w token) = Inl e"
proof -
  show "\<exists>e'. fst (fetch_all w token) = Inl e'"
    unfolding fetch_all_fst using assms
    by (cases "fst (fetch_with_retry w (env w ''TA_SESSIONS_QUERY'') token 5 15)";
        cases "fst (fetch_with_retry w (env w ''TA_BATCH_QUERY'') token 5 15)";
        cases "fst (fetch_with_retry w (env w ''TA_SLOTS_QUERY'') token 5 15)")
      (auto simp: and_then_def)
  show "fst (fetch_all w token) = Inl e" if "q = ''TA_SESSIONS_QUERY''"
    unfolding fetch_all_fst using assms(1) that by (simp add: and_then_def)
qed

text \<open>The run once the configuration is loaded and both logins succeeded.\<close>

lemma main_after_login:
  assumes "load_env w = Inr (url, sec, sa, key)" and "google_authorize w sa = None"
    and "metabase_login w url (env w ''USERNAME'') sec = Inr token"
  shows "main w parse =
     (case and_then (fst (fetch_all w token)) (fetch_and_join parse) of
        Inl e \<Rightarrow> (Some e, Login url # snd (fetch_all w token))
      | Inr (df, df3, df4) \<Rightarrow>
          (case publish w key df df3 df4 of
             (r, t') \<Rightarrow> (r, Login url # snd (fetch_all w token) @ t')))"
  using assms by (cases "fetch_all w token") (simp add: main_def split: sum.splits prod.splits)

lemma main_fetch_fails:
  assumes "load_env w = Inr (url, sec, sa, key)" and "google_authorize w sa = None"
    and "metabase_login w url (env w ''USERNAME'') sec = Inr token"
    and "fst (fetch_all w token) = Inl e"
  shows "main w parse = (Some e, Login url # snd (fetch_all w token))"
  unfolding main_after_login [OF assms(1,2,3)] using assms(4) by (simp add: and_then_def)

lemma fetch_with_retry_trace:
  "fetch_with_retry w url headers 5 15 =
     (map_sum (\<lambda>e. e) Some (attempt_post w url headers (min (Suc (failures w url headers)) 5)),
      concat (replicate (min (failures w url headers) 4) [Request url, Sleep 15]) @ [Request url])"
  unfolding fetch_with_retry_5 failures_def
  by (cases "attempt_post w url headers 1"; cases "attempt_post w url headers 2";
      cases "attempt_post w url headers 3"; cases "attempt_post w url headers 4";
      cases "attempt_post w url headers 5") (simp_all add: numeral_eq_Suc)

text \<open>With five attempts the loop always ends in \<^verbatim>\<open>return\<close> or \<^verbatim>\<open>raise\<close>: a fetch
  that returns, returns a response, and \<^verbatim>\<open>.json()\<close> is always called on a response.\<close>

lemma fetch_with_retry_returns_response:
  "fst (fetch_with_retry w url headers 5 15) \<noteq> Inr None"
  unfolding fetch_with_retry_trace
  by (cases "attempt_post w url headers (min (Suc (failures w url headers)) 5)") simp_all

lemma fetch_five_cases:
  assumes "attempt_post w url headers 1 = Inl e1" and "attempt_post w url headers 2 = Inl e2"
    and "attempt_post w url headers 3 = Inl e3" and "attempt_post w url headers 4 = Inl e4"
  shows "attempt_post w url headers 5 = Inr r \<Longrightarrow>
           fetch_with_retry w url headers 5 15 = (Inr (Some r), five_requests url)"
    and "attempt_post w url headers 5 = Inl e5 \<Longrightarrow>
           fetch_with_retry w url headers 5 15 = (Inl e5, five_requests url)"
  unfolding fetch_with_retry_5 five_requests_def using assms by simp_all

lemma main_no_publish_after_failed_fetch:
  assumes "load_env w = Inr (url, sec, sa, key)" and "google_authorize w sa = None"
    and "metabase_login w url (env w ''USERNAME'') sec = Inr token"
    and "fst (fetch_with_retry w (env w q) token 5 15) = Inl e"
    and "q = ''TA_SESSIONS_QUERY'' \<or> q = ''TA_BATCH_QUERY'' \<or> q = ''TA_SLOTS_QUERY''"
  shows "\<exists>e'. fst (main w parse) = Some e'"
    and "q = ''TA_SESSIONS_QUERY'' \<Longrightarrow> fst (main w parse) = Some e"
    and "list_all (\<lambda>ev. \<not> is_publish ev) (snd (main w parse))"
proof -
  from fetch_all_fails(1) [OF assms(4,5)] obtain e' where e': "fst (fetch_all w token) = Inl e'"
    by blast
  note m = main_fetch_fails [OF assms(1,2,3) e', of parse]
  show "\<exists>e'. fst (main w parse) = Some e'" using m by simp
  show "fst (main w parse) = Some e" if "q = ''TA_SESSIONS_QUERY''"
    using fetch_all_fails(2) [OF assms(4,5) that] e' m by simp
  show "list_all (\<lambda>ev. \<not> is_publish ev) (snd (main w parse))"
    using m fetch_all_events [of _ w token] by (simp add: list_all_iff)
qed

text \<open>
  Claim C7. With the defaults of the script (5 attempts, 15 seconds), \<^verbatim>\<open>fetch_with_retry\<close>
  makes one request more than the number of failures before the first success, and five at
  most; it sleeps 15 seconds after each failed attempt but the fifth and makes no other
  call; it returns the response of its last attempt or raises the exception of the fifth.
  In particular, when the first four attempts fail, a fifth that succeeds is returned with
  no error, and a fifth that fails raises its own exception, both after five requests
  separated by four sleeps of 15 seconds. When a fetch of the run raises, the run ends with
  an exception (that of the fetch, for the sessions query, which is read first) and its
  trace has no call on the spreadsheet.
\<close>

theorem fetch_with_retry_five_attempts:
  "fetch_with_retry w url headers 5 15 =
     (map_sum (\<lambda>e. e) Some (attempt_post w url headers (min (Suc (failures w url headers)) 5)),
      concat (replicate (min (failures w url headers) 4) [Request url, Sleep 15]) @ [Request url]) \<and>
   length (filter is_request (snd (fetch_with_retry w url headers 5 15))) \<le> 5 \<and>
   ((\<exists>e1 e2 e3 e4. attempt_post w url headers 1 = Inl e1 \<and> attempt_post w url headers 2 = Inl e2 \<and>
        attempt_post w url headers 3 = Inl e3 \<and> attempt_post w url headers 4 = Inl e4) \<longrightarrow>
      (\<forall>r. attempt_post w url headers 5 = Inr r \<longrightarrow>
         fetch_with_retry w url headers 5 15 = (Inr (Some r), five_requests url)) \<and>
      (\<forall>e5. attempt_post w url headers 5 = Inl e5 \<longrightarrow>
         fetch_with_retry w url headers 5 15 = (Inl e5, five_requests url))) \<and>
   (\<forall>login sec sa key token q e parse.
      load_env w = Inr (login, sec, sa, key) \<and> google_authorize w sa = None \<and>
      metabase_login w login (env w ''USERNAME'') sec = Inr token \<and>
      (q = ''TA_SESSIONS_QUERY'' \<or> q = ''TA_BATCH_QUERY'' \<or> q = ''TA_SLOTS_QUERY'') \<and>
      fst (fetch_with_retry w (env w q) token 5 15) = Inl e \<longrightarrow>
      (\<exists>e'. fst (main w parse) = Some e') \<and>
      (q = ''TA_SESSIONS_QUERY'' \<longrightarrow> fst (main w parse) = Some e) \<and>
      list_all (\<lambda>ev. \<not> is_publish ev) (snd (main w parse)))"
proof -
  have 1: "fetch_with_retry w url headers 5 15 =
     (map_sum (\<lambda>e. e) Some (attempt_post w url headers (min (Suc (failures w url headers)) 5)),
      concat (replicate (min (failures w url headers) 4) [Request url, Sleep 15]) @ [Request url])"
    by (rule fetch_with_retry_trace)
  have 2: "length (filter is_request (snd (fetch_with_retry w url headers 5 15))) \<le> 5"
    unfolding fetch_with_retry_5 using fetch_loop_requests [of w url headers 5 15 "[1, 2, 3, 4, 5]"]
    by simp
  have 3: "(\<forall>r. attempt_post w url headers 5 = Inr r \<longrightarrow>
         fetch_with_retry w url headers 5 15 = (Inr (Some r), five_requests url)) \<and>
      (\<forall>e5. attempt_post w url headers 5 = Inl e5 \<longrightarrow>
         fetch_with_retry w url headers 5 15 = (Inl e5, five_requests url))"
    if "\<exists>e1 e2 e3 e4. attempt_post w url headers 1 = Inl e1 \<and> attempt_post w url headers 2 = Inl e2 \<and>
        attempt_post w url headers 3 = Inl e3 \<and> attempt_post w url headers 4 = Inl e4"
    using that fetch_five_cases [of w url headers] by blast
  have 4: "(\<exists>e'. fst (main w parse) = Some e') \<and>
      (q = ''TA_SESSIONS_QUERY'' \<longrightarrow> fst (main w parse) = Some e) \<and>
      list_all (\<lambda>ev. \<not> is_publish ev) (snd (main w parse))"
    if "load_env w = Inr (login, sec, sa, key)" "google_authorize w sa = None"
      "metabase_login w login (env w ''USERNAME'') sec = Inr token"
      "q = ''TA_SESSIONS_QUERY'' \<or> q = ''TA_BATCH_QUERY'' \<or> q = ''TA_SLOTS_QUERY''"
      "fst (fetch_with_retry w (env w q) token 5 15) = Inl e"
    for login sec sa key token q e parse
    using main_no_publish_after_failed_fetch [OF that(1,2,3,5,4), of parse] by blast
  from 1 2 3 4 show ?thesis by blast
qed

theorem fetch_with_retry_five_attempts_witness:
  "attempt_post (ex_flaky_world 4) (Some ''card/6570'') ''token'' 4 = Inl (External ''503 Server Error'') \<and>
   attempt_post (ex_flaky_world 4) (Some ''card/6570'') ''token'' 5 = Inr ex_batch \<and>
   fetch_with_retry (ex_flaky_world 4) (Some ''card/6570'') ''token'' 5 15 =
     (Inr (Some ex_batch), five_requests (Some ''card/6570'')) \<and>
   attempt_post (ex_flaky_world 5) (Some ''card/6570'') ''token'' 5 = Inl (External ''503 Server Error'') \<and>
   fetch_with_retry (ex_flaky_world 5) (Some ''card/6570'') ''token'' 5 15 =
     (Inl (External ''503 Server Error''), five_requests (Some ''card/6570'')) \<and>
   env (ex_flaky_world 5) ''TA_BATCH_QUERY'' = Some ''card/6570'' \<and>
   fst (main (ex_flaky_world 5) ex_parse) = Some (External ''503 Server Error'') \<and>
   list_all (\<lambda>ev. \<not> is_publish ev) (snd (main (ex_flaky_world 5) ex_parse))"
proof -
  let ?u = "Some ''card/6570''"
  have a4: "\<exists>e1 e2 e3 e4. attempt_post (ex_flaky_world 4) ?u ''token'' 1 = Inl e1 \<and>
      attempt_post (ex_flaky_world 4) ?u ''token'' 2 = Inl e2 \<and>
      attempt_post (ex_flaky_world 4) ?u ''token'' 3 = Inl e3 \<and>
      attempt_post (ex_flaky_world 4) ?u ''token'' 4 = Inl e4"
    by (simp add: attempt_post_def ex_flaky_world_def)
  have b4: "attempt_post (ex_flaky_world 4) ?u ''token'' 4 = Inl (External ''503 Server Error'')"
    by code_simp
  have c4: "attempt_post (ex_flaky_world 4) ?u ''token'' 5 = Inr ex_batch"
    by code_simp
  have a5: "\<exists>e1 e2 e3 e4. attempt_post (ex_flaky_world 5) ?u ''token'' 1 = Inl e1 \<and>
      attempt_post (ex_flaky_world 5) ?u ''token'' 2 = Inl e2 \<and>
      attempt_post (ex_flaky_world 5) ?u ''token'' 3 = Inl e3 \<and>
      attempt_post (ex_flaky_world 5) ?u ''token'' 4 = Inl e4"
    by (simp add: attempt_post_def ex_flaky_world_def)
  have c5: "attempt_post (ex_flaky_world 5) ?u ''token'' 5 = Inl (External ''503 Server Error'')"
    by code_simp
  have q: "env (ex_flaky_world 5) ''TA_BATCH_QUERY'' = ?u"
    by code_simp
  have l: "load_env (ex_flaky_world 5) = Inr (ex_login_url, ''secret'', ''{}'', ''sheet'')"
    by code_simp
  have g: "google_authorize (ex_flaky_world 5) ''{}'' = None"
    by code_simp
  have t: "metabase_login (ex_flaky_world 5) ex_login_url (env (ex_flaky_world 5) ''USERNAME'') ''secret'' =
      Inr ''token''"
    by code_simp
  have m: "fst (main (ex_flaky_world 5) ex_parse) = Some (External ''503 Server Error'')"
    by code_simp
  from fetch_with_retry_five_attempts [of "ex_flaky_world 4" ?u "''token''"] a4 c4
  have r4: "fetch_with_retry (ex_flaky_world 4) ?u ''token'' 5 15 = (Inr (Some ex_batch), five_requests ?u)"
    by blast
  note t5 = fetch_with_retry_five_attempts [of "ex_flaky_world 5" ?u "''token''"]
  from t5 a5 c5
  have r5: "fetch_with_retry (ex_flaky_world 5) ?u ''token'' 5 15 =
      (Inl (External ''503 Server Error''), five_requests ?u)"
    by blast
  then have f5: "fst (fetch_with_retry (ex_flaky_world 5) (env (ex_flaky_world 5) ''TA_BATCH_QUERY'') ''token'' 5 15) =
      Inl (External ''503 Server Error'')"
    by (simp add: q)
  from t5 l g t f5 have w: "list_all (\<lambda>ev. \<not> is_publish ev) (snd (main (ex_flaky_world 5) ex_parse))"
    by blast
  from b4 c4 r4 c5 r5 q m w show ?thesis by blast
qed

subsection \<open>Required columns of the batch table (lines 128 to 131)\<close>

lemma json_Some: "json (Some t) = Inr t"
  by (simp add: json_def)

text \<open>Line 113 changes no label, and whether lines 116 and 128 raise depends on the
  labels only.\<close>

lemma make_df1_Inl:
  "make_df1 t = Inl e \<longleftrightarrow>
     filter (\<lambda>c. c \<notin> set (columns t)) df1_columns \<noteq> [] \<and>
     e = KeyError (filter (\<lambda>c. c \<notin> set (columns t)) df1_columns)"
  by (auto simp: make_df1_def select_columns_def Let_def and_then_def)

lemma make_df1_DataFrame_Inl: "make_df1 (DataFrame t) = Inl e \<longleftrightarrow> make_df1 t = Inl e"
  by (simp add: make_df1_Inl DataFrame_columns)

lemma missing_DataFrame: "missing (make_df2 (DataFrame b)) = missing (make_df2 b)"
  by (simp add: missing_def make_df2_def rename_def DataFrame_columns)

lemma join_pipeline_missing:
  assumes "missing (make_df2 batch) \<noteq> []"
  shows "join_pipeline parse sessions batch slots =
     (case make_df1 sessions of
        Inl e \<Rightarrow> Inl e
      | Inr df1 \<Rightarrow> Inl (MissingColumns (missing (make_df2 batch))))"
proof (cases "make_df1 sessions")
  case (Inl e)
  then have "make_df1 (DataFrame sessions) = Inl e"
    by (simp add: make_df1_DataFrame_Inl)
  with Inl show ?thesis
    by (simp add: join_pipeline_def join_sessions_def and_then_def)
next
  case (Inr d)
  have "\<exists>d'. make_df1 (DataFrame sessions) = Inr d'"
  proof (cases "make_df1 (DataFrame sessions)")
    case (Inl e)
    with Inr show ?thesis by (simp add: make_df1_DataFrame_Inl)
  qed simp
  then obtain d' where "make_df1 (DataFrame sessions) = Inr d'" ..
  with Inr assms show ?thesis
    by (simp add: join_pipeline_def join_sessions_def and_then_def validate_df2_def missing_DataFrame)
qed

text \<open>
  Claim C8, amended. After the three fetches, when a required column is absent from the
  batch table, the run ends with an exception, with exit status 1, and no clear or update of
  a worksheet occurs. The exception is the validation error that names the missing columns,
  which are the required labels that are not columns of the batch table, when the
  projection of the sessions table (line 116) went through; otherwise it is the
  \<^verbatim>\<open>KeyError\<close> of that projection, which comes first and names the projected labels
  that are not columns of the sessions table.
\<close>

theorem missing_batch_column_is_fatal:
  assumes "load_env w = Inr (url, sec, sa, key)" and "google_authorize w sa = None"
    and "metabase_login w url (env w ''USERNAME'') sec = Inr token"
    and "fetch_all w token = (Inr (Some sessions, Some batch, Some slots), t)"
    and "missing (make_df2 batch) \<noteq> []"
  shows "(\<exists>e. fst (main w parse) = Some e) \<and> exit_status (fst (main w parse)) = 1 \<and>
     list_all (\<lambda>ev. \<not> is_write ev) (snd (main w parse)) \<and>
     (\<forall>df1. make_df1 sessions = Inr df1 \<longrightarrow>
        main w parse = (Some (MissingColumns (missing (make_df2 batch))), Login url # t)) \<and>
     (\<forall>e. make_df1 sessions = Inl e \<longrightarrow>
        main w parse = (Some e, Login url # t) \<and>
        e = KeyError (filter (\<lambda>c. c \<notin> set (columns sessions)) df1_columns)) \<and>
     set (missing (make_df2 batch)) = set required_df2_cols - set (columns (make_df2 batch))"
proof -
  let ?e = "case make_df1 sessions of Inl e \<Rightarrow> e
            | Inr df1 \<Rightarrow> MissingColumns (missing (make_df2 batch))"
  have j: "and_then (fst (fetch_all w token)) (fetch_and_join parse) = Inl ?e"
    using join_pipeline_missing [OF assms(5), of parse sessions slots]
    by (simp add: assms(4) and_then_def fetch_and_join_def json_Some split: sum.splits)
  have m: "main w parse = (Some ?e, Login url # t)"
    unfolding main_after_login [OF assms(1,2,3)] j using assms(4) by simp
  have w: "list_all (\<lambda>ev. \<not> is_write ev) (snd (main w parse))"
    using m fetch_all_events [of _ w token] assms(4) is_write_is_publish
    by (auto simp: list_all_iff)
  have s: "set (missing (make_df2 batch)) = set required_df2_cols - set (columns (make_df2 batch))"
    by (auto simp: missing_def)
  have k: "e = KeyError (filter (\<lambda>c. c \<notin> set (columns sessions)) df1_columns)"
    if "make_df1 sessions = Inl e" for e
    using that by (simp add: make_df1_Inl)
  from m w s k show ?thesis by (auto simp: exit_status_def)
qed

theorem missing_batch_column_is_fatal_witness:
  "load_env (ex_world ex_env ex_sessions ex_batch_no_mentor ex_slots) =
     Inr (ex_login_url, ''secret'', ''{}'', ''sheet'') \<and>
   fetch_all (ex_world ex_env ex_sessions ex_batch_no_mentor ex_slots) ''token'' =
     (Inr (Some ex_sessions, Some ex_batch_no_mentor, Some ex_slots),
      [Request (Some ''card/6135''), Request (Some ''card/6570''), Request (Some ''card/6213'')]) \<and>
   missing (make_df2 ex_batch_no_mentor) = [''mentor_name''] \<and>
   make_df1 ex_sessions = Inr ex_df1 \<and>
   main (ex_world ex_env ex_sessions ex_batch_no_mentor ex_slots) ex_parse =
     (Some (MissingColumns [''mentor_name'']),
      [Login ex_login_url, Request (Some ''card/6135''), Request (Some ''card/6570''),
       Request (Some ''card/6213'')]) \<and>
   list_all (\<lambda>ev. \<not> is_write ev)
     (snd (main (ex_world ex_env ex_sessions ex_batch_no_mentor ex_slots) ex_parse))"
proof -
  let ?w = "ex_world ex_env ex_sessions ex_batch_no_mentor ex_slots"
  have a: "load_env ?w = Inr (ex_login_url, ''secret'', ''{}'', ''sheet'')"
    by code_simp
  have b: "google_authorize ?w ''{}'' = None"
    by code_simp
  have c: "metabase_login ?w ex_login_url (env ?w ''USERNAME'') ''secret'' = Inr ''token''"
    by code_simp
  have d: "fetch_all ?w ''token'' =
     (Inr (Some ex_sessions, Some ex_batch_no_mentor, Some ex_slots),
      [Request (Some ''card/6135''), Request (Some ''card/6570''), Request (Some ''card/6213'')])"
    by code_simp
  have e: "missing (make_df2 ex_batch_no_mentor) = [''mentor_name'']"
    by code_simp
  then have e': "missing (make_df2 ex_batch_no_mentor) \<noteq> []"
    by simp
  have f: "make_df1 ex_sessions = Inr ex_df1"
    by code_simp
  note t = missing_batch_column_is_fatal [OF a b c d e', of ex_parse]
  from t f e have g: "main ?w ex_parse =
     (Some (MissingColumns [''mentor_name'']),
      [Login ex_login_url, Request (Some ''card/6135''), Request (Some ''card/6570''),
       Request (Some ''card/6213'')])"
    by simp
  from t have h: "list_all (\<lambda>ev. \<not> is_write ev) (snd (main ?w ex_parse))"
    by blast
  from a d e f g h show ?thesis by blast
qed

text \<open>
  Claim C8 as stated fails when the sessions query returns no rows: the table has no
  columns, line 116 raises \<^verbatim>\<open>KeyError\<close> for the fourteen labels, and the validation of
  the batch table, which lacks \<^verbatim>\<open>mentor_name\<close>, is never reached.
\<close>

theorem missing_batch_column_KeyError_counterexample:
  "fetch_all (ex_world ex_env ex_empty ex_batch_no_mentor ex_slots) ''token'' =
     (Inr (Some ex_empty, Some ex_batch_no_mentor, Some ex_slots),
      [Request (Some ''card/6135''), Request (Some ''card/6570''), Request (Some ''card/6213'')]) \<and>
   missing (make_df2 ex_batch_no_mentor) = [''mentor_name''] \<and>
   main (ex_world ex_env ex_empty ex_batch_no_mentor ex_slots) ex_parse =
     (Some (KeyError df1_columns),
      [Login ex_login_url, Request (Some ''card/6135''), Request (Some ''card/6570''),
       Request (Some ''card/6213'')])"
proof -
  have "fetch_all (ex_world ex_env ex_empty ex_batch_no_mentor ex_slots) ''token'' =
     (Inr (Some ex_empty, Some ex_batch_no_mentor, Some ex_slots),
      [Request (Some ''card/6135''), Request (Some ''card/6570''), Request (Some ''card/6213'')])"
    by code_simp
  moreover have "missing (make_df2 ex_batch_no_mentor) = [''mentor_name'']"
    by code_simp
  moreover have "main (ex_world ex_env ex_empty ex_batch_no_mentor ex_slots) ex_parse =
     (Some (KeyError df1_columns),
      [Login ex_login_url, Request (Some ''card/6135''), Request (Some ''card/6570''),
       Request (Some ''card/6213'')])"
    by code_simp
  ultimately show ?thesis by blast
qed

subsection \<open>Configuration (lines 18 to 34)\<close>

text \<open>
  Claim C9, amended. When \<^verbatim>\<open>METABASE_URL\<close> is unset, or \<^verbatim>\<open>ASHRITHA_SECRET_KEY\<close>,
  \<^verbatim>\<open>SERVICE_ACCOUNT_JSON\<close> or \<^verbatim>\<open>TA_SHEET_ACCESS_KEY\<close> is unset or empty, the run ends
  with an exception that carries a message, with exit status 1 and an empty trace: before
  any login, fetch or publish, and without retry.
\<close>

theorem missing_guarded_configuration_is_fatal:
  assumes "env w ''METABASE_URL'' = None \<or> unset (env w ''ASHRITHA_SECRET_KEY'') \<or>
     unset (env w ''SERVICE_ACCOUNT_JSON'') \<or> unset (env w ''TA_SHEET_ACCESS_KEY'')"
  shows "\<exists>e. main w parse = (Some e, []) \<and> exit_status (fst (main w parse)) = 1 \<and>
     (e = AttributeError ''NoneType has no attribute rstrip'' \<or>
      e = ValueError ''Missing environment variables. Check GitHub secrets.'' \<or>
      e = ValueError ''TA_SHEET_ACCESS_KEY is not set. Check GitHub secrets.'')"
proof -
  from assms have "load_env w = Inl (AttributeError ''NoneType has no attribute rstrip'') \<or>
      load_env w = Inl (ValueError ''Missing environment variables. Check GitHub secrets.'') \<or>
      load_env w = Inl (ValueError ''TA_SHEET_ACCESS_KEY is not set. Check GitHub secrets.'')"
    by (auto simp: load_env_def split: option.splits)
  then show ?thesis
    by (auto simp: main_def exit_status_def)
qed

theorem missing_guarded_configuration_is_fatal_witness:
  "unset (env (ex_world (ex_env(''ASHRITHA_SECRET_KEY'' := None)) ex_sessions ex_batch ex_slots)
      ''ASHRITHA_SECRET_KEY'') \<and>
   main (ex_world (ex_env(''ASHRITHA_SECRET_KEY'' := None)) ex_sessions ex_batch ex_slots) ex_parse =
     (Some (ValueError ''Missing environment variables. Check GitHub secrets.''), []) \<and>
   exit_status (fst (main (ex_world (ex_env(''ASHRITHA_SECRET_KEY'' := None)) ex_sessions ex_batch ex_slots)
      ex_parse)) = 1"
proof -
  let ?w = "ex_world (ex_env(''ASHRITHA_SECRET_KEY'' := None)) ex_sessions ex_batch ex_slots"
  have a: "unset (env ?w ''ASHRITHA_SECRET_KEY'')"
    by code_simp
  have b: "main ?w ex_parse =
      (Some (ValueError ''Missing environment variables. Check GitHub secrets.''), [])"
    by code_simp
  from missing_guarded_configuration_is_fatal [of ?w ex_parse] a
  have "exit_status (fst (main ?w ex_parse)) = 1"
    by blast
  with a b show ?thesis by blast
qed

text \<open>
  Claim C9 as stated fails for a query reference. With \<^verbatim>\<open>TA_SESSIONS_QUERY\<close> unset the
  script loads its configuration, logs in, and \<^verbatim>\<open>fetch_with_retry\<close> makes five attempts
  on the URL \<^verbatim>\<open>None\<close> with four sleeps of 15 seconds before the run ends. The script
  does not check \<^verbatim>\<open>USERNAME\<close> either.
\<close>

theorem missing_query_reference_is_retried_counterexample:
  "env (ex_world (ex_env(''TA_SESSIONS_QUERY'' := None)) ex_sessions ex_batch ex_slots)
     ''TA_SESSIONS_QUERY'' = None \<and>
   main (ex_world (ex_env(''TA_SESSIONS_QUERY'' := None)) ex_sessions ex_batch ex_slots) ex_parse =
     (Some (External ''MissingSchema: Invalid URL''),
      Login ex_login_url # five_requests None @
        [Request (Some ''card/6570''), Request (Some ''card/6213'')])"
proof -
  have "env (ex_world (ex_env(''TA_SESSIONS_QUERY'' := None)) ex_sessions ex_batch ex_slots)
     ''TA_SESSIONS_QUERY'' = None"
    by code_simp
  moreover have "main (ex_world (ex_env(''TA_SESSIONS_QUERY'' := None)) ex_sessions ex_batch ex_slots) ex_parse =
     (Some (External ''MissingSchema: Invalid URL''),
      Login ex_login_url # five_requests None @
        [Request (Some ''card/6570''), Request (Some ''card/6213'')])"
    by code_simp
  ultimately show ?thesis by blast
qed

subsection \<open>No run publishes\<close>

text \<open>Since the join pipeline returns no tables, every run ends with an exception and
  without a call on the spreadsheet.\<close>

lemma fetch_and_join_never_returns: "and_then results (fetch_and_join parse) \<noteq> Inr out"
  using join_pipeline_never_returns
  by (auto simp: and_then_Inr fetch_and_join_def split: prod.splits)

lemma main_never_publishes:
  "fst (main w parse) \<noteq> None \<and> list_all (\<lambda>ev. \<not> is_publish ev) (snd (main w parse))"
proof (cases "load_env w")
  case (Inl e)
  then show ?thesis by (simp add: main_def)
next
  case (Inr cfg)
  then obtain url sec sa key where l: "load_env w = Inr (url, sec, sa, key)"
    by (cases cfg) auto
  show ?thesis
  proof (cases "google_authorize w sa")
    case (Some e)
    with l show ?thesis by (simp add: main_def)
  next
    case None
    show ?thesis
    proof (cases "metabase_login w url (env w ''USERNAME'') sec")
      case (Inl e)
      with l None show ?thesis by (simp add: main_def)
    next
      case (Inr token)
      obtain e where "and_then (fst (fetch_all w token)) (fetch_and_join parse) = Inl e"
        using fetch_and_join_never_returns [of "fst (fetch_all w token)" parse]
        by (cases "and_then (fst (fetch_all w token)) (fetch_and_join parse)") auto
      then have "main w parse = (Some e, Login url # snd (fetch_all w token))"
        unfolding main_after_login [OF l None Inr] by simp
      then show ?thesis
        using fetch_all_events [of _ w token] by (simp add: list_all_iff)
    qed
  qed
qed

end

